theory Spec2Isabelle
  imports Complex_Main "HOL-Library.Word" "HOL-Library.AList"
begin

section \<open>Strings: \<open>path.extname\<close> and \<open>toLowerCase\<close>\<close>

text \<open>
  A string is a list of code units below 256. \<open>extname\<close> follows the POSIX
  \<open>path.extname\<close> of Node.js: trailing slashes are dropped, the last path component
  is taken, and the extension runs from its last dot to its end; there is none when
  the component has no dot, when its only dot is its first character, or when the
  component is \<open>..\<close>. \<open>toLowerCase\<close> lowers the letters A to Z; a code unit
  outside ASCII never lowers to a string of the ASCII whitelists below, so membership
  in them is what the JavaScript computes.
\<close>

definition lastComponent :: "string \<Rightarrow> string" where
  "lastComponent p =
     rev (takeWhile (\<lambda>c. c \<noteq> CHR ''/'') (dropWhile (\<lambda>c. c = CHR ''/'') (rev p)))"

definition extname :: "string \<Rightarrow> string" where
  "extname p =
     (let base = lastComponent p;
          afterDot = takeWhile (\<lambda>c. c \<noteq> CHR ''.'') (rev base);
          throughDot = dropWhile (\<lambda>c. c \<noteq> CHR ''.'') (rev base)
      in if throughDot = [] \<or> throughDot = ''.'' \<or> base = ''..'' then []
         else CHR ''.'' # rev afterDot)"

definition lowerChar :: "char \<Rightarrow> char" where
  "lowerChar c =
     (case map_of (zip ''ABCDEFGHIJKLMNOPQRSTUVWXYZ'' ''abcdefghijklmnopqrstuvwxyz'') c of
        Some l \<Rightarrow> l
      | None \<Rightarrow> c)"

definition toLowerCase :: "string \<Rightarrow> string" where
  "toLowerCase s = map lowerChar s"

section \<open>Storage directories\<close>

text \<open>
  A directory (\<open>uploadsDir\<close>, \<open>certificatesDir\<close>) is an association list from entry
  names to file contents. The names of the model are the entries of the directory
  itself. The two deletions are modelled for such names only: for \<open>.\<close>, \<open>..\<close> or a
  name with a path separator \<open>path.join\<close> leads elsewhere, and a throwing
  \<open>unlinkSync\<close> (answered 500 by the catch block) is not modelled.
\<close>

type_synonym byte = "8 word"

type_synonym dir = "(string \<times> byte list) list"

definition readdirSync :: "dir \<Rightarrow> string list" where
  "readdirSync d = map fst d"

definition existsSync :: "dir \<Rightarrow> string \<Rightarrow> bool" where
  "existsSync d name = (map_of d name \<noteq> None)"

definition statSize :: "dir \<Rightarrow> string \<Rightarrow> nat option" where
  "statSize d name = map_option length (map_of d name)"

definition unlinkSync :: "dir \<Rightarrow> string \<Rightarrow> dir" where
  "unlinkSync d name = AList.delete name d"

definition writeFile :: "dir \<Rightarrow> string \<Rightarrow> byte list \<Rightarrow> dir" where
  "writeFile d name bytes = AList.update name bytes d"

section \<open>Lifecycle status of a certificate (GET /certificates, status computation)\<close>

text \<open>
  Time values are the integral millisecond counts of JavaScript's \<open>Date\<close>
  (\<open>getTime()\<close>, \<open>Date.now()\<close>); they are modelled as \<open>int\<close>. The quotient
  handed to \<open>Math.ceil\<close> is taken in the reals: the rounding of binary64 can move
  the ceiling only when the difference exceeds 10^16 milliseconds, far from both
  thresholds, so the status is the one computed here. The handler computes the status
  inline; \<open>classify\<close> is that computation as a function of the expiration time and
  the current time, and the listing below applies the same two steps to the mocked
  expiration.
\<close>

definition msPerDay :: int where
  "msPerDay = 1000 * 60 * 60 * 24"

definition oneYearMs :: int where
  "oneYearMs = 365 * 24 * 60 * 60 * 1000"

datatype status = Active | Expired | ExpiringSoon

definition daysUntilExpiration :: "int \<Rightarrow> int \<Rightarrow> int" where
  "daysUntilExpiration expirationTime nowTime =
     \<lceil>real_of_int (expirationTime - nowTime) / real_of_int msPerDay\<rceil>"

definition statusOf :: "int \<Rightarrow> status" where
  "statusOf days =
     (if days < 0 then Expired else if days \<le> 30 then ExpiringSoon else Active)"

definition classify :: "int \<Rightarrow> int \<Rightarrow> status" where
  "classify expirationTime nowTime = statusOf (daysUntilExpiration expirationTime nowTime)"

section \<open>Replies\<close>

text \<open>
  The accented letters of the Portuguese literals are the code units of the source.
  The constant \<open>success: true\<close> of the success bodies is left out; the ISO text of
  a date is its millisecond count.
\<close>

abbreviation a_acute :: char where "a_acute \<equiv> CHR 0xE1"
abbreviation a_tilde :: char where "a_tilde \<equiv> CHR 0xE3"
abbreviation c_cedilla :: char where "c_cedilla \<equiv> CHR 0xE7"
abbreviation e_acute :: char where "e_acute \<equiv> CHR 0xE9"
abbreviation o_acute :: char where "o_acute \<equiv> CHR 0xF3"

record imageEntry =
  img_filename :: string
  img_url :: string
  img_size :: nat

record certificateEntry =
  cert_filename :: string
  cert_originalName :: string
  cert_size :: nat
  cert_subject :: string
  cert_expirationDate :: int
  cert_status :: status

record UploadResponse =
  up_message :: string
  up_filename :: string
  up_originalName :: string
  up_size :: nat
  up_mimetype :: string
  up_url :: string

record CertificateUploadResponse =
  cu_message :: string
  cu_filename :: string
  cu_originalName :: string
  cu_size :: nat
  cu_mimetype :: string
  cu_expirationDate :: int
  cu_subject :: string
  cu_issuer :: string

datatype body =
    ErrorResponse string string
  | Uploaded UploadResponse
  | CertificateUploaded CertificateUploadResponse
  | ImageList "imageEntry list" nat
  | CertificateList "certificateEntry list" nat
  | Deleted string

type_synonym reply = "nat \<times> body"

section \<open>Listing (GET /images, GET /certificates)\<close>

definition imageExtensions :: "string list" where
  "imageExtensions = [''.jpg'', ''.jpeg'', ''.png'', ''.gif'']"

definition certificateExtensions :: "string list" where
  "certificateExtensions = [''.pfx'', ''.p12'']"

definition imageFiles :: "dir \<Rightarrow> string list" where
  "imageFiles d =
     filter (\<lambda>file. toLowerCase (extname file) \<in> set imageExtensions) (readdirSync d)"

definition imageEntryOf :: "dir \<Rightarrow> string \<Rightarrow> imageEntry option" where
  "imageEntryOf d filename =
     (case statSize d filename of
        None \<Rightarrow> None
      | Some sz \<Rightarrow>
          Some \<lparr>img_filename = filename,
                img_url = ''http://localhost:3000/uploads/'' @ filename,
                img_size = sz\<rparr>)"

definition listImagesFailed :: reply where
  "listImagesFailed = (500, ErrorResponse ''Erro interno do servidor'' ''Erro ao listar imagens'')"

definition listImages :: "dir \<Rightarrow> reply" where
  "listImages d =
     (case those (map (imageEntryOf d) (imageFiles d)) of
        None \<Rightarrow> listImagesFailed
      | Some images \<Rightarrow> (200, ImageList images (length images)))"

definition certificateFiles :: "dir \<Rightarrow> string list" where
  "certificateFiles d =
     filter (\<lambda>file. toLowerCase (extname file) \<in> set certificateExtensions) (readdirSync d)"

text \<open>The replacement of \<open>/^cert_[a-f0-9-]+_/\<close> by the empty string.\<close>

definition removeUuidPrefix :: "string \<Rightarrow> string" where
  "removeUuidPrefix filename =
     (if take 5 filename = ''cert_'' then
        (let inClass = (\<lambda>c. c \<in> set ''abcdef0123456789-'');
             run = takeWhile inClass (drop 5 filename)
         in case dropWhile inClass (drop 5 filename) of
              [] \<Rightarrow> filename
            | c # after \<Rightarrow> if run \<noteq> [] \<and> c = CHR ''_'' then after else filename)
      else filename)"

text \<open>
  The callback of \<open>certificateFiles.map\<close> reads the clock twice for each entry,
  \<open>Date.now()\<close> and then \<open>new Date()\<close>; \<open>clock k\<close> is the value of the
  \<open>k\<close>-th read of the request. \<open>uploadDate\<close> (the file's birth time) is not
  modelled.
\<close>

definition certificateEntryOf ::
  "(nat \<Rightarrow> int) \<Rightarrow> dir \<Rightarrow> nat \<times> string \<Rightarrow> certificateEntry option" where
  "certificateEntryOf clock d entry =
     (case entry of (i, filename) \<Rightarrow>
        (case statSize d filename of
           None \<Rightarrow> None
         | Some sz \<Rightarrow>
             (let mockExpirationDate = clock (2 * i) + oneYearMs;
                  now = clock (2 * i + 1);
                  daysUntilExpiration = daysUntilExpiration mockExpirationDate now
              in Some \<lparr>cert_filename = filename,
                       cert_originalName = removeUuidPrefix filename,
                       cert_size = sz,
                       cert_subject = ''CN=Empresa Exemplo, O=Empresa Exemplo LTDA'',
                       cert_expirationDate = mockExpirationDate,
                       cert_status = statusOf daysUntilExpiration\<rparr>)))"

definition listCertificatesFailed :: reply where
  "listCertificatesFailed =
     (500, ErrorResponse ''Erro interno do servidor'' ''Erro ao listar certificados'')"

definition listCertificates :: "(nat \<Rightarrow> int) \<Rightarrow> dir \<Rightarrow> reply" where
  "listCertificates clock d =
     (case those (map (certificateEntryOf clock d) (enumerate 0 (certificateFiles d))) of
        None \<Rightarrow> listCertificatesFailed
      | Some certificates \<Rightarrow> (200, CertificateList certificates (length certificates)))"

section \<open>Unique names\<close>

text \<open>
  \<open>uuidv4()\<close> returns a 128-bit identifier in its canonical text: thirty-two
  lower-case hexadecimal digits, most significant first, in groups of 8, 4, 4, 4 and
  12 separated by dashes. \<open>uuidText\<close> is that text of an identifier. The handlers
  take the string the call returned.
\<close>

definition hexDigit :: "nat \<Rightarrow> char" where
  "hexDigit n = ''0123456789abcdef'' ! (n mod 16)"

fun hexDigits :: "nat \<Rightarrow> nat \<Rightarrow> string" where
  "hexDigits 0 n = []"
| "hexDigits (Suc k) n = hexDigits k (n div 16) @ [hexDigit n]"

definition uuidText :: "128 word \<Rightarrow> string" where
  "uuidText u =
     (let h = hexDigits 32 (unat u)
      in take 8 h @ ''-'' @ take 4 (drop 8 h) @ ''-'' @ take 4 (drop 12 h) @ ''-'' @
         take 4 (drop 16 h) @ ''-'' @ drop 20 h)"

definition imageFilename :: "string \<Rightarrow> string \<Rightarrow> string" where
  "imageFilename uuid fileExtension = uuid @ fileExtension"

definition certificateFilename :: "string \<Rightarrow> string \<Rightarrow> string" where
  "certificateFilename uuid fileExtension = ''cert_'' @ uuid @ fileExtension"

section \<open>Multipart parts and their streams\<close>

text \<open>
  A file part carries a readable stream. What a handler can observe of it: the bytes
  that reach the target of a \<open>pump\<close> before the transfer ends or fails, how it
  finishes, and \<open>readableLength\<close>, the number of bytes waiting in its buffer when the
  handler looks.
\<close>

datatype ending = Ended | Failed

record readable =
  delivered :: "byte list"
  ending :: ending
  readableLength :: nat

record multipartFile =
  fieldname :: string
  filename :: string
  mimetype :: string
  "file" :: readable

datatype part = File multipartFile | Field string string

definition fileSize :: nat where
  "fileSize = 5 * 1024 * 1024"

text \<open>
  The multipart plugin, a dependency of the server, is registered with
  \<open>limits.fileSize\<close>: of a file of which the client sent \<open>sent\<close> it hands at most
  \<open>fileSize\<close> bytes to the stream and cuts the rest. Whether the cut stream then
  ends or fails depends on the plugin (\<open>failsAtLimit\<close>); the buffer never holds more
  than the stream was handed.
\<close>

definition limited :: "bool \<Rightarrow> byte list \<Rightarrow> nat \<Rightarrow> readable" where
  "limited failsAtLimit sent buffered =
     \<lparr>delivered = take fileSize sent,
      ending = (if fileSize < length sent \<and> failsAtLimit then Failed else Ended),
      readableLength = min buffered (length (take fileSize sent))\<rparr>"

text \<open>
  \<open>pump(stream, fs.createWriteStream(filePath))\<close>: the target is created and holds
  what the stream delivered; the promise rejects when the transfer failed, be it by
  the source (the client went away) or by the target (the disk). Nothing removes
  the target.
\<close>

definition pump :: "readable \<Rightarrow> dir \<Rightarrow> string \<Rightarrow> dir \<times> ending" where
  "pump src d name = (writeFile d name (delivered src), ending src)"

section \<open>POST /upload\<close>

definition allowedTypes :: "string list" where
  "allowedTypes = [''image/jpeg'', ''image/jpg'', ''image/png'', ''image/gif'']"

definition fileNotFound :: reply where
  "fileNotFound =
     (400, ErrorResponse (''Arquivo n'' @ a_tilde # ''o encontrado'')
             (''Nenhum arquivo foi enviado na requisi'' @ c_cedilla # a_tilde # ''o''))"

definition invalidImageType :: reply where
  "invalidImageType =
     (400, ErrorResponse (''Tipo de arquivo inv'' @ a_acute # ''lido'')
             (''Apenas arquivos JPG, PNG e GIF s'' @ a_tilde # ''o permitidos''))"

definition uploadFailed :: reply where
  "uploadFailed =
     (500, ErrorResponse ''Erro interno do servidor''
             ''Ocorreu um erro ao processar o upload da imagem'')"

text \<open>\<open>data\<close> is what \<open>request.file()\<close> returned, \<open>uuid\<close> what \<open>uuidv4()\<close> returned.\<close>

definition uploadImage :: "string \<Rightarrow> multipartFile option \<Rightarrow> dir \<Rightarrow> reply \<times> dir" where
  "uploadImage uuid data uploadsDir =
     (case data of
        None \<Rightarrow> (fileNotFound, uploadsDir)
      | Some data \<Rightarrow>
          if mimetype data \<notin> set allowedTypes then (invalidImageType, uploadsDir)
          else
            (let fileExtension = extname (filename data);
                 uniqueFilename = imageFilename uuid fileExtension
             in case pump (file data) uploadsDir uniqueFilename of
                  (written, Failed) \<Rightarrow> (uploadFailed, written)
                | (written, Ended) \<Rightarrow>
                    (case statSize written uniqueFilename of
                       None \<Rightarrow> (uploadFailed, written)
                     | Some sz \<Rightarrow>
                         ((200, Uploaded
                             \<lparr>up_message = ''Imagem enviada com sucesso'',
                              up_filename = uniqueFilename,
                              up_originalName = filename data,
                              up_size = sz,
                              up_mimetype = mimetype data,
                              up_url = ''http://localhost:3000/uploads/'' @ uniqueFilename\<rparr>),
                          written))))"

section \<open>DELETE /images/:filename\<close>

definition imageNotFound :: reply where
  "imageNotFound =
     (404, ErrorResponse (''Arquivo n'' @ a_tilde # ''o encontrado'')
             (''A imagem especificada n'' @ a_tilde # ''o existe''))"

definition deleteImage :: "string \<Rightarrow> dir \<Rightarrow> reply \<times> dir" where
  "deleteImage name uploadsDir =
     (if \<not> existsSync uploadsDir name then (imageNotFound, uploadsDir)
      else ((200, Deleted ''Imagem deletada com sucesso''), unlinkSync uploadsDir name))"

section \<open>POST /upload-certificate\<close>

text \<open>
  The loop over \<open>request.parts()\<close>. Its body keeps a file part and never reads the
  part's stream, so the plugin can hand over what follows a file only when the whole
  file went into the buffer of that stream, of \<open>bufferSize\<close> bytes, a parameter
  here. After a longer file the iterator never yields again: the loop does not end
  and the handler never replies. When the client disconnects before the body is
  complete (\<open>disconnects\<close>), the iterator rejects instead and the loop throws; \<open>parts\<close>
  are then the parts that had arrived. Otherwise the loop ends, the last matching
  part of each kind having won.
\<close>

datatype 'a iteration = Finished 'a | Stalled | Rejected

fun collectParts ::
  "nat \<Rightarrow> bool \<Rightarrow> part list \<Rightarrow> multipartFile option \<times> string \<Rightarrow>
   (multipartFile option \<times> string) iteration" where
  "collectParts bufferSize disconnects [] acc = (if disconnects then Rejected else Finished acc)"
| "collectParts bufferSize disconnects (File f # ps) (certificateFile, password) =
     (if bufferSize < length (delivered (file f)) then
        (if disconnects then Rejected else Stalled)
      else if fieldname f = ''certificate'' then
        collectParts bufferSize disconnects ps (Some f, password)
      else collectParts bufferSize disconnects ps (certificateFile, password))"
| "collectParts bufferSize disconnects (Field name v # ps) (certificateFile, password) =
     (if name = ''password'' then collectParts bufferSize disconnects ps (certificateFile, v)
      else collectParts bufferSize disconnects ps (certificateFile, password))"

definition maxSize :: nat where
  "maxSize = 5 * 1024 * 1024"

definition certificateMissing :: reply where
  "certificateMissing =
     (400, ErrorResponse (''Certificado n'' @ a_tilde # ''o encontrado'')
             (''Nenhum arquivo de certificado foi enviado na requisi'' @
              c_cedilla # a_tilde # ''o''))"

definition passwordRequired :: reply where
  "passwordRequired =
     (400, ErrorResponse (''Senha obrigat'' @ o_acute # ''ria'')
             (''A senha do certificado '' @ e_acute # '' obrigat'' @ o_acute # ''ria''))"

definition invalidCertificateType :: reply where
  "invalidCertificateType =
     (400, ErrorResponse (''Tipo de arquivo inv'' @ a_acute # ''lido'')
             (''Apenas arquivos .pfx e .p12 s'' @ a_tilde #
              ''o permitidos para certificados digitais''))"

definition certificateTooLarge :: reply where
  "certificateTooLarge =
     (400, ErrorResponse ''Arquivo muito grande''
             (''O certificado deve ter no m'' @ a_acute # ''ximo 5MB''))"

definition certificateUploadFailed :: reply where
  "certificateUploadFailed =
     (500, ErrorResponse ''Erro interno do servidor''
             ''Ocorreu um erro ao processar o upload do certificado'')"

text \<open>
  \<open>now\<close> is the value of \<open>Date.now()\<close> in the mocked certificate information. The
  reply is \<open>None\<close> when the handler never replies. A loop that throws is answered by
  the catch block, before any target is created. Once the loop has ended the whole
  body has arrived, so a \<open>Failed\<close> transfer is then a failing write.
\<close>

definition uploadCertificate ::
  "nat \<Rightarrow> bool \<Rightarrow> string \<Rightarrow> int \<Rightarrow> part list \<Rightarrow> dir \<Rightarrow> reply option \<times> dir" where
  "uploadCertificate bufferSize disconnects uuid now parts certificatesDir =
     (case collectParts bufferSize disconnects parts (None, []) of
        Stalled \<Rightarrow> (None, certificatesDir)
      | Rejected \<Rightarrow> (Some certificateUploadFailed, certificatesDir)
      | Finished (None, password) \<Rightarrow> (Some certificateMissing, certificatesDir)
      | Finished (Some certificateFile, password) \<Rightarrow>
          if password = [] then (Some passwordRequired, certificatesDir)
          else
            (let fileExtension = toLowerCase (extname (filename certificateFile))
             in if fileExtension \<notin> set certificateExtensions then
                  (Some invalidCertificateType, certificatesDir)
                else if readableLength (file certificateFile) > maxSize then
                  (Some certificateTooLarge, certificatesDir)
                else
                  (let uniqueFilename = certificateFilename uuid fileExtension
                   in case pump (file certificateFile) certificatesDir uniqueFilename of
                        (written, Failed) \<Rightarrow> (Some certificateUploadFailed, written)
                      | (written, Ended) \<Rightarrow>
                          (case statSize written uniqueFilename of
                             None \<Rightarrow> (Some certificateUploadFailed, written)
                           | Some sz \<Rightarrow>
                               (Some (200, CertificateUploaded
                                   \<lparr>cu_message =
                                      ''Certificado digital enviado e validado com sucesso'',
                                    cu_filename = uniqueFilename,
                                    cu_originalName = filename certificateFile,
                                    cu_size = sz,
                                    cu_mimetype = mimetype certificateFile,
                                    cu_expirationDate = now + oneYearMs,
                                    cu_subject = ''CN=Empresa Exemplo, O=Empresa Exemplo LTDA'',
                                    cu_issuer =
                                      ''CN=AC Exemplo, O=Autoridade Certificadora Exemplo''\<rparr>),
                                written)))))"

section \<open>DELETE /certificates/:filename\<close>

definition certificateNotFound :: reply where
  "certificateNotFound =
     (404, ErrorResponse (''Certificado n'' @ a_tilde # ''o encontrado'')
             (''O certificado especificado n'' @ a_tilde # ''o existe''))"

definition invalidCertificateFile :: reply where
  "invalidCertificateFile =
     (400, ErrorResponse (''Arquivo inv'' @ a_acute # ''lido'')
             ''Apenas certificados .pfx e .p12 podem ser deletados por esta rota'')"

definition deleteCertificate :: "string \<Rightarrow> dir \<Rightarrow> reply \<times> dir" where
  "deleteCertificate name certificatesDir =
     (if \<not> existsSync certificatesDir name then (certificateNotFound, certificatesDir)
      else if toLowerCase (extname name) \<notin> set certificateExtensions then
        (invalidCertificateFile, certificatesDir)
      else
        ((200, Deleted ''Certificado digital deletado com sucesso''),
         unlinkSync certificatesDir name))"

section \<open>Properties of the lifecycle status\<close>

lemma days_le_iff:
  "daysUntilExpiration e n \<le> k \<longleftrightarrow> e - n \<le> k * msPerDay"
proof -
  have "daysUntilExpiration e n \<le> k \<longleftrightarrow>
        real_of_int (e - n) / real_of_int msPerDay \<le> real_of_int k"
    by (simp add: daysUntilExpiration_def ceiling_le_iff)
  also have "\<dots> \<longleftrightarrow> real_of_int (e - n) \<le> real_of_int k * real_of_int msPerDay"
    by (simp add: msPerDay_def pos_divide_le_eq)
  also have "\<dots> \<longleftrightarrow> real_of_int (e - n) \<le> real_of_int (k * msPerDay)"
    by simp
  also have "\<dots> \<longleftrightarrow> e - n \<le> k * msPerDay"
    by (rule of_int_le_iff)
  finally show ?thesis .
qed

lemma days_exact: "daysUntilExpiration (n + k * msPerDay) n = k"
  by (simp add: daysUntilExpiration_def msPerDay_def)

text \<open>
  C1. For every expiration time and every current time, the days remaining are the
  ceiling of the difference divided by one day; the status is Expired exactly when
  the days remaining are negative, ExpiringSoon exactly when they lie between 0 and
  30, and Active exactly when they exceed 30. Thirty-one days out is Active, exactly
  thirty days out and exactly now are ExpiringSoon, one day in the past is Expired.
\<close>

theorem classify_by_days_remaining:
  "daysUntilExpiration e n = \<lceil>(real_of_int e - real_of_int n) / 86400000\<rceil>
   \<and> (classify e n = Expired) = (daysUntilExpiration e n < 0)
   \<and> (classify e n = ExpiringSoon) =
       (0 \<le> daysUntilExpiration e n \<and> daysUntilExpiration e n \<le> 30)
   \<and> (classify e n = Active) = (30 < daysUntilExpiration e n)
   \<and> classify (n + 31 * msPerDay) n = Active
   \<and> classify (n + 30 * msPerDay) n = ExpiringSoon
   \<and> classify n n = ExpiringSoon
   \<and> classify (n - 1 * msPerDay) n = Expired"
proof -
  have d: "daysUntilExpiration e n = \<lceil>(real_of_int e - real_of_int n) / 86400000\<rceil>"
    by (simp add: daysUntilExpiration_def msPerDay_def)
  have c: "(classify e n = Expired) = (daysUntilExpiration e n < 0)"
    "(classify e n = ExpiringSoon) =
       (0 \<le> daysUntilExpiration e n \<and> daysUntilExpiration e n \<le> 30)"
    "(classify e n = Active) = (30 < daysUntilExpiration e n)"
    by (auto simp: classify_def statusOf_def)
  have b: "classify (n + 31 * msPerDay) n = Active"
    "classify (n + 30 * msPerDay) n = ExpiringSoon"
    "classify (n + 0 * msPerDay) n = ExpiringSoon"
    "classify (n + (- 1) * msPerDay) n = Expired"
    unfolding classify_def days_exact by (simp_all add: statusOf_def)
  from d c b show ?thesis by simp
qed

lemma days_gt_iff: "k < daysUntilExpiration e n \<longleftrightarrow> k * msPerDay < e - n"
  using days_le_iff [of e n k] by linarith

lemma entry_active:
  assumes "now2 - now1 < 335 * msPerDay"
  shows "30 < daysUntilExpiration (now1 + oneYearMs) now2"
  using assms by (simp add: days_gt_iff msPerDay_def oneYearMs_def)

section \<open>Properties of the listings\<close>

lemma those_map_names:
  "(\<And>x. x \<in> set xs \<Longrightarrow> \<exists>y. f x = Some y \<and> g y = h x) \<Longrightarrow>
   \<exists>ys. those (map f xs) = Some ys \<and> map g ys = map h xs"
proof (induction xs)
  case Nil
  then show ?case by simp
next
  case (Cons x xs)
  from Cons.prems obtain y where y: "f x = Some y" "g y = h x" by auto
  from Cons.IH Cons.prems obtain ys where ys: "those (map f xs) = Some ys" "map g ys = map h xs"
    by auto
  from y ys show ?case by simp
qed

lemma those_map_member:
  "those (map f xs) = Some ys \<Longrightarrow> y \<in> set ys \<Longrightarrow> \<exists>x\<in>set xs. f x = Some y"
  by (induction xs arbitrary: ys) (auto split: option.splits)

lemma statSize_readdir:
  "name \<in> set (readdirSync d) \<Longrightarrow> \<exists>sz. statSize d name = Some sz"
  unfolding readdirSync_def statSize_def
  by (cases "map_of d name") (auto simp: map_of_eq_None_iff)

lemma listImages_names:
  "\<exists>images. listImages d = (200, ImageList images (length images))
     \<and> map img_filename images = imageFiles d
     \<and> map (\<lambda>e. Some (img_size e)) images = map (statSize d) (imageFiles d)"
proof -
  have "\<exists>ys. those (map (imageEntryOf d) (imageFiles d)) = Some ys
          \<and> map (\<lambda>e. (img_filename e, Some (img_size e))) ys = map (\<lambda>n. (n, statSize d n)) (imageFiles d)"
  proof (rule those_map_names)
    fix x assume "x \<in> set (imageFiles d)"
    then have "x \<in> set (readdirSync d)" by (simp add: imageFiles_def)
    from statSize_readdir [OF this]
    show "\<exists>y. imageEntryOf d x = Some y \<and> (img_filename y, Some (img_size y)) = (x, statSize d x)"
      by (auto simp: imageEntryOf_def)
  qed
  then obtain ys where ys: "those (map (imageEntryOf d) (imageFiles d)) = Some ys"
    and m: "map (\<lambda>e. (img_filename e, Some (img_size e))) ys = map (\<lambda>n. (n, statSize d n)) (imageFiles d)"
    by blast
  from m have "map fst (map (\<lambda>e. (img_filename e, Some (img_size e))) ys) = map fst (map (\<lambda>n. (n, statSize d n)) (imageFiles d))"
    by simp
  then have n: "map img_filename ys = imageFiles d" by (simp add: comp_def)
  from m have "map snd (map (\<lambda>e. (img_filename e, Some (img_size e))) ys) = map snd (map (\<lambda>n. (n, statSize d n)) (imageFiles d))"
    by simp
  then have s: "map (\<lambda>e. Some (img_size e)) ys = map (statSize d) (imageFiles d)" by (simp add: comp_def)
  from ys n s show ?thesis by (simp add: listImages_def)
qed

lemma certificateEntryOf_Some:
  assumes "name \<in> set (readdirSync d)"
  shows "\<exists>y. certificateEntryOf clock d (i, name) = Some y \<and> cert_filename y = name"
  using statSize_readdir [OF assms] by (auto simp: certificateEntryOf_def Let_def)

lemma listCertificates_names:
  "\<exists>certificates. those (map (certificateEntryOf clock d) (enumerate 0 (certificateFiles d))) = Some certificates
     \<and> listCertificates clock d = (200, CertificateList certificates (length certificates))
     \<and> map cert_filename certificates = certificateFiles d"
proof -
  have "\<exists>ys. those (map (certificateEntryOf clock d) (enumerate 0 (certificateFiles d))) = Some ys
          \<and> map cert_filename ys = map snd (enumerate 0 (certificateFiles d))"
  proof (rule those_map_names)
    fix x assume x: "x \<in> set (enumerate 0 (certificateFiles d))"
    obtain i name where p: "x = (i, name)" by (cases x)
    with x have "name \<in> set (certificateFiles d)" by (auto simp: in_set_enumerate_eq)
    then have "name \<in> set (readdirSync d)" by (simp add: certificateFiles_def)
    from certificateEntryOf_Some [OF this] p
    show "\<exists>y. certificateEntryOf clock d x = Some y \<and> cert_filename y = snd x" by simp
  qed
  then show ?thesis by (auto simp: listCertificates_def)
qed

text \<open>
  C8. For every storage state, each listing answers 200 with exactly the stored
  entries whose lower-cased extension is in the whitelist of its category, in the
  order of the directory: every listed name has a whitelisted extension, and every
  stored name with a whitelisted extension is listed. The size reported for an image
  is the size of the stored file.
\<close>

theorem listing_filters_by_extension:
  "(\<exists>images. listImages d = (200, ImageList images (length images))
      \<and> map img_filename images =
          filter (\<lambda>file. toLowerCase (extname file) \<in> {''.jpg'', ''.jpeg'', ''.png'', ''.gif''})
            (readdirSync d)
      \<and> set (map img_filename images) =
          {file. file \<in> set (readdirSync d)
             \<and> toLowerCase (extname file) \<in> {''.jpg'', ''.jpeg'', ''.png'', ''.gif''}}
      \<and> map (\<lambda>e. Some (img_size e)) images = map (statSize d) (map img_filename images))
   \<and> (\<exists>certificates.
        listCertificates clock d = (200, CertificateList certificates (length certificates))
      \<and> map cert_filename certificates =
          filter (\<lambda>file. toLowerCase (extname file) \<in> {''.pfx'', ''.p12''}) (readdirSync d)
      \<and> set (map cert_filename certificates) =
          {file. file \<in> set (readdirSync d)
             \<and> toLowerCase (extname file) \<in> {''.pfx'', ''.p12''}})"
proof -
  have i: "imageFiles d =
      filter (\<lambda>file. toLowerCase (extname file) \<in> {''.jpg'', ''.jpeg'', ''.png'', ''.gif''})
        (readdirSync d)"
    by (simp add: imageFiles_def imageExtensions_def)
  have c: "certificateFiles d =
      filter (\<lambda>file. toLowerCase (extname file) \<in> {''.pfx'', ''.p12''}) (readdirSync d)"
    by (simp add: certificateFiles_def certificateExtensions_def)
  obtain images where im: "listImages d = (200, ImageList images (length images))"
    "map img_filename images = imageFiles d"
    "map (\<lambda>e. Some (img_size e)) images = map (statSize d) (imageFiles d)"
    using listImages_names by blast
  obtain certificates where ce:
    "listCertificates clock d = (200, CertificateList certificates (length certificates))"
    "map cert_filename certificates = certificateFiles d"
    using listCertificates_names by blast
  have si: "set (map img_filename images) =
      {file. file \<in> set (readdirSync d)
         \<and> toLowerCase (extname file) \<in> {''.jpg'', ''.jpeg'', ''.png'', ''.gif''}}"
    unfolding im(2) i by (rule set_filter)
  have sc: "set (map cert_filename certificates) =
      {file. file \<in> set (readdirSync d) \<and> toLowerCase (extname file) \<in> {''.pfx'', ''.p12''}}"
    unfolding ce(2) c by (rule set_filter)
  have "\<exists>images. listImages d = (200, ImageList images (length images))
      \<and> map img_filename images =
          filter (\<lambda>file. toLowerCase (extname file) \<in> {''.jpg'', ''.jpeg'', ''.png'', ''.gif''})
            (readdirSync d)
      \<and> set (map img_filename images) =
          {file. file \<in> set (readdirSync d)
             \<and> toLowerCase (extname file) \<in> {''.jpg'', ''.jpeg'', ''.png'', ''.gif''}}
      \<and> map (\<lambda>e. Some (img_size e)) images = map (statSize d) (map img_filename images)"
  proof (intro exI conjI)
    show "listImages d = (200, ImageList images (length images))" by (rule im(1))
    show "map img_filename images =
          filter (\<lambda>file. toLowerCase (extname file) \<in> {''.jpg'', ''.jpeg'', ''.png'', ''.gif''})
            (readdirSync d)"
      unfolding im(2) by (rule i)
    show "set (map img_filename images) =
          {file. file \<in> set (readdirSync d)
             \<and> toLowerCase (extname file) \<in> {''.jpg'', ''.jpeg'', ''.png'', ''.gif''}}"
      by (rule si)
    show "map (\<lambda>e. Some (img_size e)) images = map (statSize d) (map img_filename images)"
      unfolding im(2) by (rule im(3))
  qed
  moreover have "\<exists>certificates.
        listCertificates clock d = (200, CertificateList certificates (length certificates))
      \<and> map cert_filename certificates =
          filter (\<lambda>file. toLowerCase (extname file) \<in> {''.pfx'', ''.p12''}) (readdirSync d)
      \<and> set (map cert_filename certificates) =
          {file. file \<in> set (readdirSync d)
             \<and> toLowerCase (extname file) \<in> {''.pfx'', ''.p12''}}"
  proof (intro exI conjI)
    show "listCertificates clock d = (200, CertificateList certificates (length certificates))"
      by (rule ce(1))
    show "map cert_filename certificates =
          filter (\<lambda>file. toLowerCase (extname file) \<in> {''.pfx'', ''.p12''}) (readdirSync d)"
      unfolding ce(2) by (rule c)
    show "set (map cert_filename certificates) =
          {file. file \<in> set (readdirSync d)
             \<and> toLowerCase (extname file) \<in> {''.pfx'', ''.p12''}}"
      by (rule sc)
  qed
  ultimately show ?thesis by (rule conjI)
qed

text \<open>
  C10. The listing computes the expiration of every entry as the clock's value plus
  365 days and reads the clock again for the current time. When the second read of
  each entry is less than 335 days after the first (in particular when both return
  the same instant), the days until expiration exceed 30 and every listed
  certificate has the status Active: the other two branches are not taken.
\<close>

theorem listed_certificates_are_active:
  assumes "\<And>i. clock (2 * i + 1) - clock (2 * i) < 335 * msPerDay"
  shows "(\<forall>i. 30 < daysUntilExpiration (clock (2 * i) + oneYearMs) (clock (2 * i + 1)))
    \<and> (\<exists>certificates.
          listCertificates clock d = (200, CertificateList certificates (length certificates))
        \<and> (\<forall>c\<in>set certificates. cert_status c = Active))"
proof -
  have days: "30 < daysUntilExpiration (clock (2 * i) + oneYearMs) (clock (2 * i + 1))" for i
    by (rule entry_active) (rule assms)
  obtain certificates where
    th: "those (map (certificateEntryOf clock d) (enumerate 0 (certificateFiles d))) = Some certificates"
    and li: "listCertificates clock d = (200, CertificateList certificates (length certificates))"
    using listCertificates_names by blast
  have "cert_status c = Active" if "c \<in> set certificates" for c
  proof -
    from those_map_member [OF th that] obtain i name
      where "certificateEntryOf clock d (i, name) = Some c" by auto
    then have "cert_status c =
        statusOf (daysUntilExpiration (clock (2 * i) + oneYearMs) (clock (2 * i + 1)))"
      by (auto simp: certificateEntryOf_def Let_def split: option.splits)
    with days [of i] show ?thesis by (simp add: statusOf_def)
  qed
  with days li show ?thesis by blast
qed

text \<open>
  The hypothesis holds for a clock that advances one millisecond per read, over a
  directory with one certificate and one other file.
\<close>

theorem listed_certificates_are_active_witness:
  "(\<forall>i. 1700000000000 + int (2 * i + 1) - (1700000000000 + int (2 * i)) < 335 * msPerDay)
   \<and> (\<forall>i. 30 < daysUntilExpiration (1700000000000 + int (2 * i) + oneYearMs)
               (1700000000000 + int (2 * i + 1)))
   \<and> (\<exists>certificates.
         listCertificates (\<lambda>k. 1700000000000 + int k)
           [(''cert_1.pfx'', [1, 2]), (''notes.txt'', [])]
           = (200, CertificateList certificates (length certificates))
       \<and> (\<forall>c\<in>set certificates. cert_status c = Active))"
proof -
  have h: "(\<lambda>k. 1700000000000 + int k) (2 * i + 1) - (\<lambda>k. 1700000000000 + int k) (2 * i)
        < 335 * msPerDay" for i
    by (simp add: msPerDay_def)
  from listed_certificates_are_active
    [of "\<lambda>k. 1700000000000 + int k" "[(''cert_1.pfx'', [1, 2]), (''notes.txt'', [])]", OF h] h
  show ?thesis by blast
qed

section \<open>What the upload handlers answer and store\<close>

lemma statSize_writeFile: "statSize (writeFile d name bytes) name = Some (length bytes)"
  by (simp add: statSize_def writeFile_def update_conv')

lemma map_of_writeFile: "map_of (writeFile d name bytes) = (map_of d)(name \<mapsto> bytes)"
  by (simp add: writeFile_def update_conv')

lemma readdir_writeFile: "name \<in> set (readdirSync (writeFile d name bytes))"
  by (simp add: readdirSync_def writeFile_def dom_update)

lemma uploadImage_accepted:
  assumes "mimetype data \<in> set allowedTypes"
  shows "uploadImage uuid (Some data) d =
     (case ending (file data) of
        Failed \<Rightarrow> uploadFailed
      | Ended \<Rightarrow>
          (200, Uploaded
             \<lparr>up_message = ''Imagem enviada com sucesso'',
              up_filename = imageFilename uuid (extname (filename data)),
              up_originalName = filename data,
              up_size = length (delivered (file data)),
              up_mimetype = mimetype data,
              up_url = ''http://localhost:3000/uploads/'' @
                 imageFilename uuid (extname (filename data))\<rparr>),
      writeFile d (imageFilename uuid (extname (filename data))) (delivered (file data)))"
  using assms
  by (cases "ending (file data)")
    (simp_all add: uploadImage_def pump_def statSize_writeFile Let_def)

lemma uploadImage_rejected:
  "mimetype data \<notin> set allowedTypes \<Longrightarrow> uploadImage uuid (Some data) d = (invalidImageType, d)"
  by (simp add: uploadImage_def)

lemma uploadCertificate_accepted:
  assumes "collectParts bufferSize disconnects parts (None, []) = Finished (Some cf, password)"
    "password \<noteq> []"
    "toLowerCase (extname (filename cf)) \<in> set certificateExtensions"
    "readableLength (file cf) \<le> maxSize"
  shows "uploadCertificate bufferSize disconnects uuid now parts d =
     (Some (case ending (file cf) of
        Failed \<Rightarrow> certificateUploadFailed
      | Ended \<Rightarrow>
          (200, CertificateUploaded
             \<lparr>cu_message = ''Certificado digital enviado e validado com sucesso'',
              cu_filename = certificateFilename uuid (toLowerCase (extname (filename cf))),
              cu_originalName = filename cf,
              cu_size = length (delivered (file cf)),
              cu_mimetype = mimetype cf,
              cu_expirationDate = now + oneYearMs,
              cu_subject = ''CN=Empresa Exemplo, O=Empresa Exemplo LTDA'',
              cu_issuer = ''CN=AC Exemplo, O=Autoridade Certificadora Exemplo''\<rparr>)),
      writeFile d (certificateFilename uuid (toLowerCase (extname (filename cf))))
        (delivered (file cf)))"
  using assms
  by (cases "ending (file cf)")
    (simp_all add: uploadCertificate_def pump_def statSize_writeFile Let_def)

lemma uploadCertificate_unfinished:
  "collectParts bufferSize disconnects parts (None, []) = Stalled \<Longrightarrow>
   uploadCertificate bufferSize disconnects uuid now parts d = (None, d)"
  "collectParts bufferSize disconnects parts (None, []) = Rejected \<Longrightarrow>
   uploadCertificate bufferSize disconnects uuid now parts d = (Some certificateUploadFailed, d)"
  by (simp_all add: uploadCertificate_def)

lemma uploadCertificate_refused:
  assumes "collectParts bufferSize disconnects parts (None, []) = Finished (cfo, password)"
  shows "cfo = None \<Longrightarrow>
         uploadCertificate bufferSize disconnects uuid now parts d = (Some certificateMissing, d)"
    and "cfo = Some cf \<Longrightarrow> password = [] \<Longrightarrow>
         uploadCertificate bufferSize disconnects uuid now parts d = (Some passwordRequired, d)"
    and "cfo = Some cf \<Longrightarrow> password \<noteq> [] \<Longrightarrow>
         toLowerCase (extname (filename cf)) \<notin> set certificateExtensions \<Longrightarrow>
         uploadCertificate bufferSize disconnects uuid now parts d =
           (Some invalidCertificateType, d)"
    and "cfo = Some cf \<Longrightarrow> password \<noteq> [] \<Longrightarrow>
         toLowerCase (extname (filename cf)) \<in> set certificateExtensions \<Longrightarrow>
         maxSize < readableLength (file cf) \<Longrightarrow>
         uploadCertificate bufferSize disconnects uuid now parts d =
           (Some certificateTooLarge, d)"
  using assms by (simp_all add: uploadCertificate_def Let_def)

lemma uploadCertificate_reply:
  assumes c: "collectParts bufferSize disconnects parts (None, []) = Finished (Some cf, password)"
  shows "fst (uploadCertificate bufferSize disconnects uuid now parts d) =
     Some (if password = [] then passwordRequired
      else if toLowerCase (extname (filename cf)) \<notin> set certificateExtensions
        then invalidCertificateType
      else if maxSize < readableLength (file cf) then certificateTooLarge
      else case ending (file cf) of
             Failed \<Rightarrow> certificateUploadFailed
           | Ended \<Rightarrow>
               (200, CertificateUploaded
                  \<lparr>cu_message = ''Certificado digital enviado e validado com sucesso'',
                   cu_filename = certificateFilename uuid (toLowerCase (extname (filename cf))),
                   cu_originalName = filename cf,
                   cu_size = length (delivered (file cf)),
                   cu_mimetype = mimetype cf,
                   cu_expirationDate = now + oneYearMs,
                   cu_subject = ''CN=Empresa Exemplo, O=Empresa Exemplo LTDA'',
                   cu_issuer = ''CN=AC Exemplo, O=Autoridade Certificadora Exemplo''\<rparr>))"
proof -
  note r = uploadCertificate_refused [OF c]
  show ?thesis
  proof (cases "password = []")
    case True
    with r(2) [OF refl True] show ?thesis by simp
  next
    case pw: False
    show ?thesis
    proof (cases "toLowerCase (extname (filename cf)) \<in> set certificateExtensions")
      case False
      with r(3) [OF refl pw False] pw show ?thesis by simp
    next
      case ext: True
      show ?thesis
      proof (cases "maxSize < readableLength (file cf)")
        case True
        with r(4) [OF refl pw ext True] pw ext show ?thesis by simp
      next
        case False
        then have le: "readableLength (file cf) \<le> maxSize" by simp
        show ?thesis
          unfolding uploadCertificate_accepted [OF c pw ext le]
          by (simp add: pw ext False)
      qed
    qed
  qed
qed

lemma uploadImage_success:
  assumes "uploadImage uuid data d = ((200, body), d')"
  shows "\<exists>a. data = Some a \<and> mimetype a \<in> set allowedTypes \<and> ending (file a) = Ended
     \<and> body = Uploaded
             \<lparr>up_message = ''Imagem enviada com sucesso'',
              up_filename = imageFilename uuid (extname (filename a)),
              up_originalName = filename a,
              up_size = length (delivered (file a)),
              up_mimetype = mimetype a,
              up_url = ''http://localhost:3000/uploads/'' @
                 imageFilename uuid (extname (filename a))\<rparr>
     \<and> d' = writeFile d (imageFilename uuid (extname (filename a))) (delivered (file a))"
proof (cases data)
  case None
  with assms show ?thesis by (simp add: uploadImage_def fileNotFound_def)
next
  case (Some a)
  show ?thesis
  proof (cases "mimetype a \<in> set allowedTypes")
    case False
    with assms Some show ?thesis by (simp add: uploadImage_rejected invalidImageType_def)
  next
    case True
    from assms Some show ?thesis
      unfolding Some uploadImage_accepted [OF True]
      by (cases "ending (file a)") (simp_all add: uploadFailed_def True)
  qed
qed

lemma uploadImage_stored:
  assumes "uploadImage uuid data d = ((200, Uploaded r), d')"
  shows "\<exists>a. data = Some a \<and> mimetype a \<in> set allowedTypes \<and> ending (file a) = Ended
     \<and> up_filename r = imageFilename uuid (extname (filename a))
     \<and> up_size r = length (delivered (file a))
     \<and> d' = writeFile d (up_filename r) (delivered (file a))"
proof -
  from uploadImage_success [OF assms] obtain a where a: "data = Some a"
    "mimetype a \<in> set allowedTypes" "ending (file a) = Ended"
    "d' = writeFile d (imageFilename uuid (extname (filename a))) (delivered (file a))"
    and r: "Uploaded r = Uploaded
             \<lparr>up_message = ''Imagem enviada com sucesso'',
              up_filename = imageFilename uuid (extname (filename a)),
              up_originalName = filename a,
              up_size = length (delivered (file a)),
              up_mimetype = mimetype a,
              up_url = ''http://localhost:3000/uploads/'' @
                 imageFilename uuid (extname (filename a))\<rparr>"
    by blast
  from r have "up_filename r = imageFilename uuid (extname (filename a))"
    "up_size r = length (delivered (file a))" by simp_all
  with a show ?thesis by simp
qed

lemma uploadCertificate_stored:
  assumes "uploadCertificate bufferSize disconnects uuid now parts d =
      (Some (200, CertificateUploaded r), d')"
  shows "\<exists>cf password.
       collectParts bufferSize disconnects parts (None, []) = Finished (Some cf, password)
     \<and> password \<noteq> []
     \<and> toLowerCase (extname (filename cf)) \<in> set certificateExtensions
     \<and> readableLength (file cf) \<le> maxSize \<and> ending (file cf) = Ended
     \<and> cu_filename r = certificateFilename uuid (toLowerCase (extname (filename cf)))
     \<and> cu_size r = length (delivered (file cf))
     \<and> d' = writeFile d (cu_filename r) (delivered (file cf))"
proof (cases "collectParts bufferSize disconnects parts (None, [])")
  case Stalled
  with assms uploadCertificate_unfinished(1) [OF Stalled] show ?thesis by simp
next
  case Rejected
  with assms uploadCertificate_unfinished(2) [OF Rejected] show ?thesis
    by (simp add: certificateUploadFailed_def)
next
  case (Finished acc)
  obtain cfo password where acc: "acc = (cfo, password)" by (cases acc)
  note c = Finished [unfolded acc]
  note r = uploadCertificate_refused [OF c]
  show ?thesis
  proof (cases cfo)
    case None
    with assms r(1) [OF None] show ?thesis by (simp add: certificateMissing_def)
  next
    case (Some cf)
    note c' = c [unfolded Some]
    show ?thesis
    proof (cases "password = []")
      case True
      from assms r(2) [OF Some True] show ?thesis by (simp add: passwordRequired_def)
    next
      case pw: False
      show ?thesis
      proof (cases "toLowerCase (extname (filename cf)) \<in> set certificateExtensions")
        case False
        from assms r(3) [OF Some pw False] show ?thesis
          by (simp add: invalidCertificateType_def)
      next
        case ext: True
        show ?thesis
        proof (cases "maxSize < readableLength (file cf)")
          case True
          from assms r(4) [OF Some pw ext True] show ?thesis
            by (simp add: certificateTooLarge_def)
        next
          case False
          then have le: "readableLength (file cf) \<le> maxSize" by simp
          show ?thesis
          proof (cases "ending (file cf)")
            case Failed
            with assms show ?thesis
              unfolding uploadCertificate_accepted [OF c' pw ext le]
              by (simp add: certificateUploadFailed_def)
          next
            case Ended
            from assms have r': "CertificateUploaded r = CertificateUploaded
               \<lparr>cu_message = ''Certificado digital enviado e validado com sucesso'',
                cu_filename = certificateFilename uuid (toLowerCase (extname (filename cf))),
                cu_originalName = filename cf,
                cu_size = length (delivered (file cf)),
                cu_mimetype = mimetype cf,
                cu_expirationDate = now + oneYearMs,
                cu_subject = ''CN=Empresa Exemplo, O=Empresa Exemplo LTDA'',
                cu_issuer = ''CN=AC Exemplo, O=Autoridade Certificadora Exemplo''\<rparr>"
              and d': "d' = writeFile d
                 (certificateFilename uuid (toLowerCase (extname (filename cf))))
                 (delivered (file cf))"
              unfolding uploadCertificate_accepted [OF c' pw ext le]
              by (simp_all add: Ended)
            from r' have "cu_filename r =
                certificateFilename uuid (toLowerCase (extname (filename cf)))"
              "cu_size r = length (delivered (file cf))" by simp_all
            with c' pw ext le Ended d' show ?thesis by simp
          qed
        qed
      qed
    qed
  qed
qed

section \<open>Properties of the unique names\<close>

lemma hexDigit_eq_iff: "hexDigit a = hexDigit b \<longleftrightarrow> a mod 16 = b mod 16"
proof -
  have d: "distinct ''0123456789abcdef''" by simp
  have l: "length ''0123456789abcdef'' = 16" by simp
  have "a mod 16 < length ''0123456789abcdef''" "b mod 16 < length ''0123456789abcdef''"
    unfolding l by simp_all
  from nth_eq_iff_index_eq [OF d this] show ?thesis by (simp only: hexDigit_def)
qed

lemma hexDigit_in: "hexDigit n \<in> set ''0123456789abcdef''"
proof -
  have l: "length ''0123456789abcdef'' = 16" by simp
  have "n mod 16 < length ''0123456789abcdef''" unfolding l by simp
  then show ?thesis unfolding hexDigit_def by (rule nth_mem)
qed

lemma length_hexDigits: "length (hexDigits k n) = k"
  by (induction k arbitrary: n) simp_all

lemma hexDigits_chars: "c \<in> set (hexDigits k n) \<Longrightarrow> \<exists>m. c = hexDigit m"
  by (induction k arbitrary: n) auto

lemma hexDigit_not_r: "hexDigit m \<noteq> CHR ''r''"
proof
  assume "hexDigit m = CHR ''r''"
  with hexDigit_in [of m] have "CHR ''r'' \<in> set ''0123456789abcdef''" by (simp only:)
  then show False by simp
qed

lemma hexDigits_inj: "hexDigits k a = hexDigits k b \<Longrightarrow> a mod 16 ^ k = b mod 16 ^ k"
proof (induction k arbitrary: a b)
  case 0
  then show ?case by simp
next
  case (Suc k)
  from Suc.prems have hs: "hexDigits k (a div 16) = hexDigits k (b div 16)"
    and hd: "hexDigit a = hexDigit b" by simp_all
  from hs have hi: "a div 16 mod 16 ^ k = b div 16 mod 16 ^ k" by (rule Suc.IH)
  from hd have lo: "a mod 16 = b mod 16" by (simp only: hexDigit_eq_iff)
  have "a mod (16 * 16 ^ k) = 16 * (a div 16 mod 16 ^ k) + a mod 16"
    by (rule mod_mult2_eq)
  moreover have "b mod (16 * 16 ^ k) = 16 * (b div 16 mod 16 ^ k) + b mod 16"
    by (rule mod_mult2_eq)
  ultimately have "a mod (16 * 16 ^ k) = b mod (16 * 16 ^ k)" using hi lo by (simp only:)
  then show ?case by (simp only: power_Suc)
qed

lemma hexDigits_unat_inj:
  fixes u v :: "128 word"
  assumes "hexDigits 32 (unat u) = hexDigits 32 (unat v)"
  shows "u = v"
proof -
  have p: "(16::nat) ^ 32 = 2 ^ 128" by simp
  have "unat u < 2 ^ 128" "unat v < 2 ^ 128"
    using unsigned_less [of u] unsigned_less [of v] by simp_all
  then have "unat u mod 16 ^ 32 = unat u" "unat v mod 16 ^ 32 = unat v"
    unfolding p by simp_all
  with hexDigits_inj [OF assms] have "unat u = unat v" by (simp only:)
  then show ?thesis by (rule word_unat_eq_iff [THEN iffD2])
qed

lemma groups_of_32:
  assumes "length (h::string) = 32"
  shows "take 8 h @ take 4 (drop 8 h) @ take 4 (drop 12 h) @ take 4 (drop 16 h) @ drop 20 h = h"
proof -
  have "take 4 (drop 16 h) @ drop 20 h = drop 16 h"
    using append_take_drop_id [of 4 "drop 16 h"] by simp
  moreover have "take 4 (drop 12 h) @ drop 16 h = drop 12 h"
    using append_take_drop_id [of 4 "drop 12 h"] by simp
  moreover have "take 4 (drop 8 h) @ drop 12 h = drop 8 h"
    using append_take_drop_id [of 4 "drop 8 h"] by simp
  ultimately show ?thesis by simp
qed

lemma length_uuidText: "length (uuidText u) = 36"
  by (simp add: uuidText_def Let_def length_hexDigits)

lemma uuidText_inj:
  assumes "uuidText u = uuidText v"
  shows "u = v"
proof -
  define h where "h = hexDigits 32 (unat u)"
  define k where "k = hexDigits 32 (unat v)"
  have lh: "length h = 32" and lk: "length k = 32"
    by (simp_all add: h_def k_def length_hexDigits)
  from assms have e: "take 8 h @ ''-'' @ take 4 (drop 8 h) @ ''-'' @ take 4 (drop 12 h) @ ''-'' @
         take 4 (drop 16 h) @ ''-'' @ drop 20 h
     = take 8 k @ ''-'' @ take 4 (drop 8 k) @ ''-'' @ take 4 (drop 12 k) @ ''-'' @
         take 4 (drop 16 k) @ ''-'' @ drop 20 k"
    by (simp only: uuidText_def Let_def h_def k_def)
  have a: "take 8 h = take 8 k"
    and r1: "take 4 (drop 8 h) @ ''-'' @ take 4 (drop 12 h) @ ''-'' @ take 4 (drop 16 h) @ ''-'' @ drop 20 h
       = take 4 (drop 8 k) @ ''-'' @ take 4 (drop 12 k) @ ''-'' @ take 4 (drop 16 k) @ ''-'' @ drop 20 k"
    using e lh lk by simp_all
  have b: "take 4 (drop 8 h) = take 4 (drop 8 k)"
    and r2: "take 4 (drop 12 h) @ ''-'' @ take 4 (drop 16 h) @ ''-'' @ drop 20 h
       = take 4 (drop 12 k) @ ''-'' @ take 4 (drop 16 k) @ ''-'' @ drop 20 k"
    using r1 lh lk by simp_all
  have c: "take 4 (drop 12 h) = take 4 (drop 12 k)"
    and r3: "take 4 (drop 16 h) @ ''-'' @ drop 20 h = take 4 (drop 16 k) @ ''-'' @ drop 20 k"
    using r2 lh lk by simp_all
  have d: "take 4 (drop 16 h) = take 4 (drop 16 k)" and f: "drop 20 h = drop 20 k"
    using r3 lh lk by simp_all
  have "h = take 8 h @ take 4 (drop 8 h) @ take 4 (drop 12 h) @ take 4 (drop 16 h) @ drop 20 h"
    by (rule groups_of_32 [OF lh, symmetric])
  also have "\<dots> = take 8 k @ take 4 (drop 8 k) @ take 4 (drop 12 k) @ take 4 (drop 16 k) @ drop 20 k"
    by (simp only: a b c d f)
  also have "\<dots> = k" by (rule groups_of_32 [OF lk])
  finally have "hexDigits 32 (unat u) = hexDigits 32 (unat v)" by (simp only: h_def k_def)
  then show ?thesis by (rule hexDigits_unat_inj)
qed

lemma uuidText_third: "\<exists>m. uuidText u ! 2 = hexDigit m"
proof -
  have "uuidText u ! 2 = hexDigits 32 (unat u) ! 2"
    by (simp add: uuidText_def Let_def nth_append length_hexDigits)
  moreover have "hexDigits 32 (unat u) ! 2 \<in> set (hexDigits 32 (unat u))"
    by (rule nth_mem) (simp add: length_hexDigits)
  ultimately show ?thesis using hexDigits_chars by metis
qed

lemma imageFilename_inj:
  assumes "imageFilename (uuidText u) e = imageFilename (uuidText v) e'"
  shows "u = v"
proof -
  have "length (uuidText u) = length (uuidText v)" by (simp only: length_uuidText)
  with assms have "uuidText u = uuidText v" by (simp add: imageFilename_def)
  then show ?thesis by (rule uuidText_inj)
qed

lemma certificateFilename_inj:
  assumes "certificateFilename (uuidText u) e = certificateFilename (uuidText v) e'"
  shows "u = v"
proof -
  have "length (uuidText u) = length (uuidText v)" by (simp only: length_uuidText)
  with assms have "uuidText u = uuidText v" by (simp add: certificateFilename_def)
  then show ?thesis by (rule uuidText_inj)
qed

lemma image_name_third: "\<exists>m. imageFilename (uuidText v) e ! 2 = hexDigit m"
  using uuidText_third [of v] by (simp add: imageFilename_def nth_append length_uuidText)

lemma certificate_name_third: "certificateFilename uuid e ! 2 = CHR ''r''"
  by (simp add: certificateFilename_def)

lemma certificate_not_image: "certificateFilename uuid e \<noteq> imageFilename (uuidText v) e'"
proof
  assume "certificateFilename uuid e = imageFilename (uuidText v) e'"
  then have "certificateFilename uuid e ! 2 = imageFilename (uuidText v) e' ! 2" by (simp only:)
  with image_name_third [of v e'] certificate_name_third [of uuid e] hexDigit_not_r
  show False by metis
qed

lemma image_name_prefix: "take 5 (imageFilename (uuidText v) e) \<noteq> ''cert_''"
proof
  assume a: "take 5 (imageFilename (uuidText v) e) = ''cert_''"
  have "take 5 (imageFilename (uuidText v) e) ! 2 = imageFilename (uuidText v) e ! 2" by simp
  with a have "imageFilename (uuidText v) e ! 2 = CHR ''r''" by simp
  with image_name_third [of v e] hexDigit_not_r show False by metis
qed

lemma distinct_names:
  assumes inj: "\<And>u e v e'. f u e = f v e' \<Longrightarrow> u = v" and d: "distinct (map fst reqs)"
  shows "distinct (map (\<lambda>(u, e). f u e) reqs)"
proof -
  from d have dr: "distinct reqs" and ir: "inj_on fst (set reqs)"
    by (simp_all add: distinct_map)
  have "inj_on (\<lambda>(u, e). f u e) (set reqs)"
  proof (rule inj_onI)
    fix x y assume x: "x \<in> set reqs" and y: "y \<in> set reqs"
      and e: "(case x of (u, e) \<Rightarrow> f u e) = (case y of (u, e) \<Rightarrow> f u e)"
    from e have "fst x = fst y" by (cases x; cases y) (auto dest: inj)
    with ir show "x = y" using x y by (rule inj_onD)
  qed
  with dr show ?thesis by (simp add: distinct_map)
qed

text \<open>
  C7. The generated name is injective in the identifier: two distinct 128-bit
  identifiers give different stored names in either category, whatever the
  extensions; a run that draws pairwise distinct identifiers generates pairwise
  distinct names; two successful ingests with distinct identifiers store under
  different names whatever the storage holds at each of them, so also after a
  deletion. Every certificate name starts with \<open>cert_\<close>, no image name does, and
  no certificate name is an image name.
\<close>

theorem stored_names_unique:
  "(u \<noteq> v \<longrightarrow>
      imageFilename (uuidText u) e \<noteq> imageFilename (uuidText v) e'
    \<and> certificateFilename (uuidText u) e \<noteq> certificateFilename (uuidText v) e')
   \<and> (distinct (map fst reqs) \<longrightarrow>
        distinct (map (\<lambda>(u, e). imageFilename (uuidText u) e) reqs)
      \<and> distinct (map (\<lambda>(u, e). certificateFilename (uuidText u) e) reqs))
   \<and> (u \<noteq> v \<longrightarrow>
        uploadImage (uuidText u) data1 d1 = ((200, Uploaded r1), d1') \<longrightarrow>
        uploadImage (uuidText v) data2 d2 = ((200, Uploaded r2), d2') \<longrightarrow>
        up_filename r1 \<noteq> up_filename r2)
   \<and> (u \<noteq> v \<longrightarrow>
        uploadCertificate b1 x1 (uuidText u) now1 parts1 c1
          = (Some (200, CertificateUploaded s1), c1') \<longrightarrow>
        uploadCertificate b2 x2 (uuidText v) now2 parts2 c2
          = (Some (200, CertificateUploaded s2), c2') \<longrightarrow>
        cu_filename s1 \<noteq> cu_filename s2)
   \<and> take 5 (certificateFilename uuid e) = ''cert_''
   \<and> take 5 (imageFilename (uuidText v) e') \<noteq> ''cert_''
   \<and> certificateFilename uuid e \<noteq> imageFilename (uuidText v) e'"
proof -
  have n: "u \<noteq> v \<longrightarrow>
      imageFilename (uuidText u) e \<noteq> imageFilename (uuidText v) e'
    \<and> certificateFilename (uuidText u) e \<noteq> certificateFilename (uuidText v) e'"
    using imageFilename_inj certificateFilename_inj by blast
  have l: "distinct (map fst reqs) \<longrightarrow>
        distinct (map (\<lambda>(u, e). imageFilename (uuidText u) e) reqs)
      \<and> distinct (map (\<lambda>(u, e). certificateFilename (uuidText u) e) reqs)"
  proof (intro impI conjI)
    assume d: "distinct (map fst reqs)"
    show "distinct (map (\<lambda>(u, e). imageFilename (uuidText u) e) reqs)"
      by (rule distinct_names [OF _ d]) (rule imageFilename_inj)
    show "distinct (map (\<lambda>(u, e). certificateFilename (uuidText u) e) reqs)"
      by (rule distinct_names [OF _ d]) (rule certificateFilename_inj)
  qed
  have i: "up_filename r1 \<noteq> up_filename r2"
    if "u \<noteq> v" and a: "uploadImage (uuidText u) data1 d1 = ((200, Uploaded r1), d1')"
      and b: "uploadImage (uuidText v) data2 d2 = ((200, Uploaded r2), d2')"
  proof -
    from uploadImage_stored [OF a] obtain x :: multipartFile
      where x: "up_filename r1 = imageFilename (uuidText u) (extname (filename x))" by blast
    from uploadImage_stored [OF b] obtain y :: multipartFile
      where y: "up_filename r2 = imageFilename (uuidText v) (extname (filename y))" by blast
    from \<open>u \<noteq> v\<close> imageFilename_inj show ?thesis unfolding x y by blast
  qed
  have c: "cu_filename s1 \<noteq> cu_filename s2"
    if "u \<noteq> v"
      and a: "uploadCertificate b1 x1 (uuidText u) now1 parts1 c1
          = (Some (200, CertificateUploaded s1), c1')"
      and b: "uploadCertificate b2 x2 (uuidText v) now2 parts2 c2
          = (Some (200, CertificateUploaded s2), c2')"
  proof -
    from uploadCertificate_stored [OF a] obtain x :: multipartFile where
      x: "cu_filename s1 = certificateFilename (uuidText u) (toLowerCase (extname (filename x)))"
      by blast
    from uploadCertificate_stored [OF b] obtain y :: multipartFile where
      y: "cu_filename s2 = certificateFilename (uuidText v) (toLowerCase (extname (filename y)))"
      by blast
    from \<open>u \<noteq> v\<close> certificateFilename_inj show ?thesis unfolding x y by blast
  qed
  have p: "take 5 (certificateFilename uuid e) = ''cert_''"
    by (simp add: certificateFilename_def)
  from n l i c p image_name_prefix [of v e'] certificate_not_image [of uuid e v e']
  show ?thesis by blast
qed

text \<open>
  The hypotheses hold for the identifiers 1 and 2: an image and a certificate are
  stored under the first, deleted, and stored again under the second (the one-byte
  certificate fits a stream buffer of 64 KiB and the client stays connected).
\<close>

theorem stored_names_unique_witness:
  "(1::128 word) \<noteq> 2
   \<and> imageFilename (uuidText 1) ''.png'' \<noteq> imageFilename (uuidText 2) ''.png''
   \<and> certificateFilename (uuidText 1) ''.png'' \<noteq> certificateFilename (uuidText 2) ''.png''
   \<and> distinct (map fst [(1::128 word, ''.png''), (2, ''.png'')])
   \<and> distinct (map (\<lambda>(u, e). imageFilename (uuidText u) e) [(1, ''.png''), (2, ''.png'')])
   \<and> (\<exists>r1 d1 r2 d2.
        uploadImage (uuidText 1)
          (Some \<lparr>fieldname = ''image'', filename = ''a.png'', mimetype = ''image/png'',
                 file = \<lparr>delivered = [1], ending = Ended, readableLength = 0\<rparr>\<rparr>) []
          = ((200, Uploaded r1), d1)
      \<and> uploadImage (uuidText 2)
          (Some \<lparr>fieldname = ''image'', filename = ''a.png'', mimetype = ''image/png'',
                 file = \<lparr>delivered = [1], ending = Ended, readableLength = 0\<rparr>\<rparr>)
          (unlinkSync d1 (up_filename r1))
          = ((200, Uploaded r2), d2)
      \<and> up_filename r1 \<noteq> up_filename r2)
   \<and> (\<exists>s1 c1 s2 c2.
        uploadCertificate 65536 False (uuidText 1) 0
          [File \<lparr>fieldname = ''certificate'', filename = ''a.pfx'', mimetype = ''x'',
                 file = \<lparr>delivered = [1], ending = Ended, readableLength = 1\<rparr>\<rparr>,
           Field ''password'' ''pw''] []
          = (Some (200, CertificateUploaded s1), c1)
      \<and> uploadCertificate 65536 False (uuidText 2) 0
          [File \<lparr>fieldname = ''certificate'', filename = ''a.pfx'', mimetype = ''x'',
                 file = \<lparr>delivered = [1], ending = Ended, readableLength = 1\<rparr>\<rparr>,
           Field ''password'' ''pw'']
          (unlinkSync c1 (cu_filename s1))
          = (Some (200, CertificateUploaded s2), c2)
      \<and> cu_filename s1 \<noteq> cu_filename s2)"
proof -
  let ?A = "\<lparr>fieldname = ''image'', filename = ''a.png'', mimetype = ''image/png'',
                 file = \<lparr>delivered = [1], ending = Ended, readableLength = 0\<rparr>\<rparr>"
  let ?F = "\<lparr>fieldname = ''certificate'', filename = ''a.pfx'', mimetype = ''x'',
                 file = \<lparr>delivered = [1], ending = Ended, readableLength = 1\<rparr>\<rparr>"
  let ?P = "[File ?F, Field ''password'' ''pw'']"
  have m: "mimetype ?A \<in> set allowedTypes" by (simp add: allowedTypes_def)
  obtain r1 d1 where a: "uploadImage (uuidText 1) (Some ?A) [] = ((200, Uploaded r1), d1)"
    by (simp add: uploadImage_accepted [OF m])
  obtain r2 d2 where b: "uploadImage (uuidText 2) (Some ?A) (unlinkSync d1 (up_filename r1))
      = ((200, Uploaded r2), d2)"
    by (simp add: uploadImage_accepted [OF m])
  have c: "collectParts 65536 False ?P (None, []) = Finished (Some ?F, ''pw'')" by simp
  have p: "''pw'' \<noteq> []" by simp
  have e: "toLowerCase (extname (filename ?F)) \<in> set certificateExtensions"
    by (simp add: extname_def lastComponent_def toLowerCase_def lowerChar_def
        certificateExtensions_def)
  have l: "readableLength (file ?F) \<le> maxSize" by (simp add: maxSize_def)
  obtain s1 c1 where f: "uploadCertificate 65536 False (uuidText 1) 0 ?P []
      = (Some (200, CertificateUploaded s1), c1)"
    unfolding uploadCertificate_accepted [OF c p e l] by simp
  obtain s2 c2 where g: "uploadCertificate 65536 False (uuidText 2) 0 ?P
      (unlinkSync c1 (cu_filename s1)) = (Some (200, CertificateUploaded s2), c2)"
    unfolding uploadCertificate_accepted [OF c p e l] by simp
  have n: "(1::128 word) \<noteq> 2" by simp
  have dis: "distinct (map fst [(1::128 word, ''.png''), (2, ''.png'')])" by simp
  note t = stored_names_unique [where u = 1 and v = 2 and e = "''.png''" and e' = "''.png''"
      and reqs = "[(1, ''.png''), (2, ''.png'')]"
      and ?data1.0 = "Some ?A" and ?d1.0 = "[]" and ?r1.0 = r1 and d1' = d1
      and ?data2.0 = "Some ?A" and ?d2.0 = "unlinkSync d1 (up_filename r1)" and ?r2.0 = r2
      and d2' = d2
      and ?b1.0 = 65536 and ?x1.0 = False and ?b2.0 = 65536 and ?x2.0 = False
      and ?now1.0 = 0 and ?parts1.0 = ?P and ?c1.0 = "[]" and ?s1.0 = s1 and c1' = c1
      and ?now2.0 = 0 and ?parts2.0 = ?P and ?c2.0 = "unlinkSync c1 (cu_filename s1)"
      and ?s2.0 = s2 and c2' = c2]
  note t1 = t [THEN conjunct1]
    and t2 = t [THEN conjunct2, THEN conjunct1]
    and t3 = t [THEN conjunct2, THEN conjunct2, THEN conjunct1]
    and t4 = t [THEN conjunct2, THEN conjunct2, THEN conjunct2, THEN conjunct1]
  from t1 n have names: "imageFilename (uuidText 1) ''.png'' \<noteq> imageFilename (uuidText 2) ''.png''
      \<and> certificateFilename (uuidText 1) ''.png'' \<noteq> certificateFilename (uuidText 2) ''.png''"
    by (rule mp)
  from t2 dis have "distinct (map (\<lambda>(u, e). imageFilename (uuidText u) e) [(1, ''.png''), (2, ''.png'')])
      \<and> distinct (map (\<lambda>(u, e). certificateFilename (uuidText u) e) [(1, ''.png''), (2, ''.png'')])"
    by (rule mp)
  then have d2: "distinct (map (\<lambda>(u, e). imageFilename (uuidText u) e) [(1, ''.png''), (2, ''.png'')])"
    by (rule conjunct1)
  have i: "up_filename r1 \<noteq> up_filename r2" by (rule t3 [rule_format, OF n a b])
  have j: "cu_filename s1 \<noteq> cu_filename s2" by (rule t4 [rule_format, OF n f g])
  from a b i have ei: "\<exists>r1 d1 r2 d2.
        uploadImage (uuidText 1) (Some ?A) [] = ((200, Uploaded r1), d1)
      \<and> uploadImage (uuidText 2) (Some ?A) (unlinkSync d1 (up_filename r1)) = ((200, Uploaded r2), d2)
      \<and> up_filename r1 \<noteq> up_filename r2" by blast
  from f g j have ec: "\<exists>s1 c1 s2 c2.
        uploadCertificate 65536 False (uuidText 1) 0 ?P [] = (Some (200, CertificateUploaded s1), c1)
      \<and> uploadCertificate 65536 False (uuidText 2) 0 ?P (unlinkSync c1 (cu_filename s1))
          = (Some (200, CertificateUploaded s2), c2)
      \<and> cu_filename s1 \<noteq> cu_filename s2" by blast
  from n names [THEN conjunct1] names [THEN conjunct2] dis d2 ei ec show ?thesis
    by (intro conjI)
qed

section \<open>The parts loop of the certificate upload\<close>

lemma collectParts_disconnects: "collectParts bufferSize True parts acc = Rejected"
  by (induction bufferSize True parts acc rule: collectParts.induct) simp_all

lemma collectParts_stalls:
  "File f \<in> set parts \<Longrightarrow> bufferSize < length (delivered (file f)) \<Longrightarrow>
   collectParts bufferSize False parts acc = Stalled"
  by (induction bufferSize False parts acc rule: collectParts.induct) auto

lemma collectParts_finishes:
  "(\<And>g. File g \<in> set parts \<Longrightarrow> length (delivered (file g)) \<le> bufferSize) \<Longrightarrow>
   collectParts bufferSize False parts (cf, pw) =
     Finished
       (let files = [f. File f \<leftarrow> parts, fieldname f = ''certificate'']
        in if files = [] then cf else Some (last files),
        let passwords = [v. Field name v \<leftarrow> parts, name = ''password'']
        in if passwords = [] then pw else last passwords)"
proof (induction bufferSize False parts "(cf, pw)" arbitrary: cf pw rule: collectParts.induct)
  case (1 bufferSize)
  then show ?case by simp
next
  case (2 bufferSize f ps)
  from "2.prems" [of f] have "\<not> bufferSize < length (delivered (file f))" by simp
  with 2 show ?case by (simp add: Let_def)
next
  case (3 bufferSize name v ps)
  then show ?case by (simp add: Let_def)
qed

text \<open>
  C6. The password check is reached only when the parts loop has ended. A request
  with a certificate file longer than the stream buffer, the client staying
  connected, is never answered, whether it carries a password or not: the password
  error the claim requires is not sent. When every file part fits the buffer, a
  request with a certificate file and an absent or empty password is answered with
  the password error, and nothing is written.
\<close>

theorem missing_password_unanswered:
  "(File f \<in> set parts \<longrightarrow> bufferSize < length (delivered (file f)) \<longrightarrow>
      uploadCertificate bufferSize False uuid now parts d = (None, d))
   \<and> ((\<forall>g. File g \<in> set parts \<longrightarrow> length (delivered (file g)) \<le> bufferSize) \<longrightarrow>
      [f. File f \<leftarrow> parts, fieldname f = ''certificate''] \<noteq> [] \<longrightarrow>
      ([v. Field name v \<leftarrow> parts, name = ''password''] = []
        \<or> last [v. Field name v \<leftarrow> parts, name = ''password''] = []) \<longrightarrow>
      uploadCertificate bufferSize False uuid now parts d = (Some passwordRequired, d))"
proof (intro conjI impI)
  assume "File f \<in> set parts" and "bufferSize < length (delivered (file f))"
  then have "collectParts bufferSize False parts (None, []) = Stalled"
    by (rule collectParts_stalls)
  then show "uploadCertificate bufferSize False uuid now parts d = (None, d)"
    by (rule uploadCertificate_unfinished(1))
next
  assume fits: "\<forall>g. File g \<in> set parts \<longrightarrow> length (delivered (file g)) \<le> bufferSize"
    and cert: "[f. File f \<leftarrow> parts, fieldname f = ''certificate''] \<noteq> []"
    and pw: "[v. Field name v \<leftarrow> parts, name = ''password''] = []
        \<or> last [v. Field name v \<leftarrow> parts, name = ''password''] = []"
  from fits have "collectParts bufferSize False parts (None, []) =
     Finished
       (let files = [f. File f \<leftarrow> parts, fieldname f = ''certificate'']
        in if files = [] then None else Some (last files),
        let passwords = [v. Field name v \<leftarrow> parts, name = ''password'']
        in if passwords = [] then [] else last passwords)"
    by (intro collectParts_finishes) simp
  with cert pw have c: "collectParts bufferSize False parts (None, []) =
     Finished (Some (last [f. File f \<leftarrow> parts, fieldname f = ''certificate'']), [])"
    by (auto simp: Let_def)
  show "uploadCertificate bufferSize False uuid now parts d = (Some passwordRequired, d)"
    by (rule uploadCertificate_refused(2) [OF c refl refl])
qed

text \<open>
  The hypotheses hold, with a buffer of 65,536 bytes, for a file \<open>a.pfx\<close> of
  1,048,576 bytes without a password, which is never answered, and for a file of
  two bytes without a password, which is answered with the password error.
\<close>

theorem missing_password_unanswered_witness:
  "File \<lparr>fieldname = ''certificate'', filename = ''a.pfx'', mimetype = ''application/x-pkcs12'',
      file = \<lparr>delivered = replicate 1048576 0, ending = Ended, readableLength = 65536\<rparr>\<rparr>
     \<in> set [File \<lparr>fieldname = ''certificate'', filename = ''a.pfx'',
          mimetype = ''application/x-pkcs12'',
          file = \<lparr>delivered = replicate 1048576 0, ending = Ended, readableLength = 65536\<rparr>\<rparr>]
   \<and> uploadCertificate 65536 False ''1b4e28ba-2fa1-41d2-883f-0016d3cca427'' 0
        [File \<lparr>fieldname = ''certificate'', filename = ''a.pfx'',
           mimetype = ''application/x-pkcs12'',
           file = \<lparr>delivered = replicate 1048576 0, ending = Ended, readableLength = 65536\<rparr>\<rparr>]
        [] = (None, [])
   \<and> uploadCertificate 65536 False ''1b4e28ba-2fa1-41d2-883f-0016d3cca427'' 0
        [File \<lparr>fieldname = ''certificate'', filename = ''a.pfx'',
           mimetype = ''application/x-pkcs12'',
           file = \<lparr>delivered = [48, 130], ending = Ended, readableLength = 2\<rparr>\<rparr>]
        [] = (Some passwordRequired, [])"
proof -
  let ?U = "''1b4e28ba-2fa1-41d2-883f-0016d3cca427''"
  let ?L = "\<lparr>fieldname = ''certificate'', filename = ''a.pfx'', mimetype = ''application/x-pkcs12'',
      file = \<lparr>delivered = replicate 1048576 0, ending = Ended, readableLength = 65536\<rparr>\<rparr>"
  let ?S = "\<lparr>fieldname = ''certificate'', filename = ''a.pfx'', mimetype = ''application/x-pkcs12'',
      file = \<lparr>delivered = [48, 130], ending = Ended, readableLength = 2\<rparr>\<rparr>"
  have m: "File ?L \<in> set [File ?L]" by simp
  have b: "65536 < length (delivered (file ?L))" by simp
  note big = missing_password_unanswered
    [where f = ?L and parts = "[File ?L]" and bufferSize = 65536 and uuid = ?U and now = 0
      and d = "[]", THEN conjunct1, rule_format, OF m b]
  have fits: "\<forall>g. File g \<in> set [File ?S] \<longrightarrow> length (delivered (file g)) \<le> 65536" by simp
  have cert: "[f. File f \<leftarrow> [File ?S], fieldname f = ''certificate''] \<noteq> []" by simp
  have pw: "[v. Field name v \<leftarrow> [File ?S], name = ''password''] = []
      \<or> last [v. Field name v \<leftarrow> [File ?S], name = ''password''] = []" by simp
  note small = missing_password_unanswered
    [where parts = "[File ?S]" and bufferSize = 65536 and uuid = ?U and now = 0
      and d = "[]", THEN conjunct2, rule_format, OF fits [rule_format] cert pw]
  from m big small show ?thesis by (intro conjI)
qed

section \<open>Error replies\<close>

lemma uploadImage_reply:
  "fst (uploadImage uuid (Some a) d) =
     (if mimetype a \<notin> set allowedTypes then invalidImageType
      else case ending (file a) of
             Failed \<Rightarrow> uploadFailed
           | Ended \<Rightarrow>
               (200, Uploaded
                  \<lparr>up_message = ''Imagem enviada com sucesso'',
                   up_filename = imageFilename uuid (extname (filename a)),
                   up_originalName = filename a,
                   up_size = length (delivered (file a)),
                   up_mimetype = mimetype a,
                   up_url = ''http://localhost:3000/uploads/'' @
                      imageFilename uuid (extname (filename a))\<rparr>))"
proof (cases "mimetype a \<in> set allowedTypes")
  case False
  then show ?thesis by (simp add: uploadImage_rejected)
next
  case True
  then show ?thesis by (simp add: uploadImage_accepted)
qed

lemma image_errors_independent:
  assumes "mimetype a' = mimetype a" "ending (file a') = ending (file a)"
    and "fst (fst (uploadImage uuid (Some a) d)) \<noteq> 200"
  shows "fst (uploadImage uuid' (Some a') d') = fst (uploadImage uuid (Some a) d)"
  using assms unfolding uploadImage_reply
  by (cases "ending (file a)") (simp_all split: if_splits)

lemma certificate_errors_independent:
  assumes "collectParts bufferSize disconnects parts (None, []) = Finished (Some cf, password)"
    and "collectParts bufferSize' disconnects' parts' (None, []) = Finished (Some cf', password')"
    and "(password = []) = (password' = [])"
    and "filename cf' = filename cf"
    and "readableLength (file cf') = readableLength (file cf)"
    and "ending (file cf') = ending (file cf)"
    and "fst (uploadCertificate bufferSize disconnects uuid now parts d) = Some r"
    and "fst r \<noteq> 200"
  shows "fst (uploadCertificate bufferSize' disconnects' uuid' now' parts' d') = Some r"
  using assms(3-8)
  unfolding uploadCertificate_reply [OF assms(1)] uploadCertificate_reply [OF assms(2)]
  by (cases "ending (file cf)") (auto split: if_splits)

lemma image_error_catalogue:
  assumes "fst (fst (uploadImage uuid data d)) \<noteq> 200"
  shows "fst (uploadImage uuid data d) \<in> {fileNotFound, invalidImageType, uploadFailed}"
proof (cases data)
  case None
  then show ?thesis by (simp add: uploadImage_def)
next
  case (Some a)
  with assms show ?thesis
    unfolding Some uploadImage_reply
    by (cases "ending (file a)") (simp_all split: if_splits)
qed

lemma certificate_error_catalogue:
  assumes u: "fst (uploadCertificate bufferSize disconnects uuid now parts d) = Some r"
    and e: "fst r \<noteq> 200"
  shows "r \<in> {certificateMissing, passwordRequired, invalidCertificateType,
     certificateTooLarge, certificateUploadFailed}"
proof (cases "collectParts bufferSize disconnects parts (None, [])")
  case (Finished acc)
  obtain cfo password where acc: "acc = (cfo, password)" by (cases acc)
  note c = Finished [unfolded acc]
  show ?thesis
  proof (cases cfo)
    case None
    with uploadCertificate_refused(1) [OF c] u show ?thesis by simp
  next
    case (Some cf)
    from u e show ?thesis
      unfolding uploadCertificate_reply [OF c [unfolded Some]]
      by (cases "ending (file cf)") (auto split: if_splits)
  qed
next
  case Stalled
  with uploadCertificate_unfinished(1) [OF Stalled] u show ?thesis by simp
next
  case Rejected
  with uploadCertificate_unfinished(2) [OF Rejected] u show ?thesis by simp
qed

lemma image_error_tagged:
  assumes "fst (uploadImage uuid data d) = (k, ErrorResponse e m)"
  shows "(k, ErrorResponse e m) \<in> {fileNotFound, invalidImageType, uploadFailed}"
proof (cases data)
  case None
  with assms show ?thesis by (simp add: uploadImage_def)
next
  case (Some a)
  with assms show ?thesis
    unfolding Some uploadImage_reply
    by (cases "ending (file a)") (auto split: if_splits)
qed

lemma image_tag_determines_reply:
  assumes "fst (uploadImage uuid data d) = (k, ErrorResponse e m)"
    and "fst (uploadImage uuid' data' d') = (k', ErrorResponse e m')"
  shows "k' = k \<and> m' = m"
  using image_error_tagged [OF assms(1)] image_error_tagged [OF assms(2)]
  by (auto simp: fileNotFound_def invalidImageType_def uploadFailed_def)

lemma certificate_error_tagged:
  assumes u: "fst (uploadCertificate bufferSize disconnects uuid now parts d)
      = Some (k, ErrorResponse e m)"
  shows "(k, ErrorResponse e m) \<in> {certificateMissing, passwordRequired,
     invalidCertificateType, certificateTooLarge, certificateUploadFailed}"
proof (cases "collectParts bufferSize disconnects parts (None, [])")
  case (Finished acc)
  obtain cfo password where acc: "acc = (cfo, password)" by (cases acc)
  note c = Finished [unfolded acc]
  show ?thesis
  proof (cases cfo)
    case None
    with uploadCertificate_refused(1) [OF c] u show ?thesis by simp
  next
    case (Some cf)
    from u show ?thesis
      unfolding uploadCertificate_reply [OF c [unfolded Some]]
      by (cases "ending (file cf)") (auto split: if_splits)
  qed
next
  case Stalled
  with uploadCertificate_unfinished(1) [OF Stalled] u show ?thesis by simp
next
  case Rejected
  with uploadCertificate_unfinished(2) [OF Rejected] u show ?thesis by simp
qed

lemma certificate_tag_determines_reply:
  assumes "fst (uploadCertificate bufferSize disconnects uuid now parts d)
      = Some (k, ErrorResponse e m)"
    and "fst (uploadCertificate bufferSize' disconnects' uuid' now' parts' d')
      = Some (k', ErrorResponse e m')"
  shows "k' = k \<and> m' = m"
  using certificate_error_tagged [OF assms(1)] certificate_error_tagged [OF assms(2)]
  by (auto simp: certificateMissing_def passwordRequired_def invalidCertificateType_def
      certificateTooLarge_def certificateUploadFailed_def)


text \<open>
  C9. The error reply of a failing upload does not depend on the bytes of the file,
  on the password, on the generated name or on the storage. Two image uploads with
  the same MIME type whose streams finish the same way get the same error reply,
  and so do two certificate uploads whose parts loops end and that agree on whether
  the password is empty, on the file name, on the buffered length and on how the
  transfer finishes. A certificate upload whose client disconnects is answered with
  the internal error, whatever it carried. Every error reply of the two upload
  handlers is one of a fixed list of literal replies, and two error replies of one
  handler with the same error tag are the same reply.
\<close>

theorem error_replies_independent:
  "(mimetype a' = mimetype a \<longrightarrow> ending (file a') = ending (file a) \<longrightarrow>
      fst (fst (uploadImage uuid (Some a) d)) \<noteq> 200 \<longrightarrow>
      fst (uploadImage uuid' (Some a') d') = fst (uploadImage uuid (Some a) d))
   \<and> (collectParts bufferSize disconnects parts (None, []) = Finished (Some cf, password) \<longrightarrow>
      collectParts bufferSize' disconnects' parts' (None, []) = Finished (Some cf', password') \<longrightarrow>
      (password = []) = (password' = []) \<longrightarrow>
      filename cf' = filename cf \<longrightarrow>
      readableLength (file cf') = readableLength (file cf) \<longrightarrow>
      ending (file cf') = ending (file cf) \<longrightarrow>
      fst (uploadCertificate bufferSize disconnects uuid now parts c) = Some r \<longrightarrow>
      fst r \<noteq> 200 \<longrightarrow>
      fst (uploadCertificate bufferSize' disconnects' uuid' now' parts' c') = Some r)
   \<and> uploadCertificate bufferSize True uuid now parts c = (Some certificateUploadFailed, c)
   \<and> (fst (fst (uploadImage uuid data d)) \<noteq> 200 \<longrightarrow>
      fst (uploadImage uuid data d) \<in> {fileNotFound, invalidImageType, uploadFailed})
   \<and> (fst (uploadCertificate bufferSize disconnects uuid now parts c) = Some r \<longrightarrow>
      fst r \<noteq> 200 \<longrightarrow>
      r \<in> {certificateMissing, passwordRequired, invalidCertificateType, certificateTooLarge,
           certificateUploadFailed})
   \<and> (fst (uploadImage uuid data d) = (k, ErrorResponse e m) \<longrightarrow>
      fst (uploadImage uuid' data' d') = (k', ErrorResponse e m') \<longrightarrow>
      fst (uploadImage uuid' data' d') = fst (uploadImage uuid data d))
   \<and> (fst (uploadCertificate bufferSize disconnects uuid now parts c)
        = Some (k, ErrorResponse e m) \<longrightarrow>
      fst (uploadCertificate bufferSize' disconnects' uuid' now' parts' c')
        = Some (k', ErrorResponse e m') \<longrightarrow>
      fst (uploadCertificate bufferSize' disconnects' uuid' now' parts' c')
        = fst (uploadCertificate bufferSize disconnects uuid now parts c))"
proof -
  have ii: "mimetype a' = mimetype a \<longrightarrow> ending (file a') = ending (file a) \<longrightarrow>
      fst (fst (uploadImage uuid (Some a) d)) \<noteq> 200 \<longrightarrow>
      fst (uploadImage uuid' (Some a') d') = fst (uploadImage uuid (Some a) d)"
    by (intro impI) (rule image_errors_independent)
  have ci: "collectParts bufferSize disconnects parts (None, []) = Finished (Some cf, password) \<longrightarrow>
      collectParts bufferSize' disconnects' parts' (None, []) = Finished (Some cf', password') \<longrightarrow>
      (password = []) = (password' = []) \<longrightarrow>
      filename cf' = filename cf \<longrightarrow>
      readableLength (file cf') = readableLength (file cf) \<longrightarrow>
      ending (file cf') = ending (file cf) \<longrightarrow>
      fst (uploadCertificate bufferSize disconnects uuid now parts c) = Some r \<longrightarrow>
      fst r \<noteq> 200 \<longrightarrow>
      fst (uploadCertificate bufferSize' disconnects' uuid' now' parts' c') = Some r"
    by (intro impI) (rule certificate_errors_independent)
  have cd: "uploadCertificate bufferSize True uuid now parts c
      = (Some certificateUploadFailed, c)"
    by (rule uploadCertificate_unfinished(2) [OF collectParts_disconnects])
  have ic: "fst (fst (uploadImage uuid data d)) \<noteq> 200 \<longrightarrow>
      fst (uploadImage uuid data d) \<in> {fileNotFound, invalidImageType, uploadFailed}"
    by (intro impI) (rule image_error_catalogue)
  have cc: "fst (uploadCertificate bufferSize disconnects uuid now parts c) = Some r \<longrightarrow>
      fst r \<noteq> 200 \<longrightarrow>
      r \<in> {certificateMissing, passwordRequired, invalidCertificateType, certificateTooLarge,
           certificateUploadFailed}"
    by (intro impI) (rule certificate_error_catalogue)
  have it: "fst (uploadImage uuid data d) = (k, ErrorResponse e m) \<longrightarrow>
      fst (uploadImage uuid' data' d') = (k', ErrorResponse e m') \<longrightarrow>
      fst (uploadImage uuid' data' d') = fst (uploadImage uuid data d)"
  proof (intro impI)
    assume 1: "fst (uploadImage uuid data d) = (k, ErrorResponse e m)"
      and 2: "fst (uploadImage uuid' data' d') = (k', ErrorResponse e m')"
    from image_tag_determines_reply [OF 1 2] 1 2
    show "fst (uploadImage uuid' data' d') = fst (uploadImage uuid data d)" by simp
  qed
  have ct: "fst (uploadCertificate bufferSize disconnects uuid now parts c)
        = Some (k, ErrorResponse e m) \<longrightarrow>
      fst (uploadCertificate bufferSize' disconnects' uuid' now' parts' c')
        = Some (k', ErrorResponse e m') \<longrightarrow>
      fst (uploadCertificate bufferSize' disconnects' uuid' now' parts' c')
        = fst (uploadCertificate bufferSize disconnects uuid now parts c)"
  proof (intro impI)
    assume 1: "fst (uploadCertificate bufferSize disconnects uuid now parts c)
        = Some (k, ErrorResponse e m)"
      and 2: "fst (uploadCertificate bufferSize' disconnects' uuid' now' parts' c')
        = Some (k', ErrorResponse e m')"
    from certificate_tag_determines_reply [OF 1 2] 1 2
    show "fst (uploadCertificate bufferSize' disconnects' uuid' now' parts' c')
        = fst (uploadCertificate bufferSize disconnects uuid now parts c)" by simp
  qed
  from ii ci cd ic cc it ct show ?thesis by (intro conjI)
qed

text \<open>
  The hypotheses hold for two image uploads whose streams fail (500), for two
  certificate uploads with a wrong extension (400) and for two certificate uploads
  whose clients disconnect (500); the runs of each pair differ in bytes, password,
  generated name and storage.
\<close>

theorem error_replies_independent_witness:
  "fst (uploadImage ''u1''
      (Some \<lparr>fieldname = ''image'', filename = ''a.png'', mimetype = ''image/png'',
             file = \<lparr>delivered = [1], ending = Failed, readableLength = 0\<rparr>\<rparr>) [])
     = uploadFailed
   \<and> fst (uploadImage ''u2''
      (Some \<lparr>fieldname = ''image'', filename = ''b.png'', mimetype = ''image/png'',
             file = \<lparr>delivered = [2, 3], ending = Failed, readableLength = 1\<rparr>\<rparr>)
      [(''x'', [])])
     = fst (uploadImage ''u1''
      (Some \<lparr>fieldname = ''image'', filename = ''a.png'', mimetype = ''image/png'',
             file = \<lparr>delivered = [1], ending = Failed, readableLength = 0\<rparr>\<rparr>) [])
   \<and> fst (uploadCertificate 65536 False ''u1'' 0
      [File \<lparr>fieldname = ''certificate'', filename = ''a.txt'', mimetype = ''x'',
             file = \<lparr>delivered = [1], ending = Ended, readableLength = 1\<rparr>\<rparr>,
       Field ''password'' ''secret''] [])
     = Some invalidCertificateType
   \<and> fst (uploadCertificate 65536 False ''u2'' 5
      [Field ''password'' ''other'',
       File \<lparr>fieldname = ''certificate'', filename = ''a.txt'', mimetype = ''y'',
             file = \<lparr>delivered = [9, 9], ending = Ended, readableLength = 1\<rparr>\<rparr>]
      [(''x'', [])])
     = Some invalidCertificateType
   \<and> uploadCertificate 65536 True ''u1'' 0
      [File \<lparr>fieldname = ''certificate'', filename = ''a.txt'', mimetype = ''x'',
             file = \<lparr>delivered = [1], ending = Ended, readableLength = 1\<rparr>\<rparr>,
       Field ''password'' ''secret''] []
     = (Some certificateUploadFailed, [])
   \<and> fst (uploadImage ''u1''
      (Some \<lparr>fieldname = ''image'', filename = ''a.png'', mimetype = ''image/png'',
             file = \<lparr>delivered = [1], ending = Failed, readableLength = 0\<rparr>\<rparr>) [])
     \<in> {fileNotFound, invalidImageType, uploadFailed}
   \<and> invalidCertificateType
     \<in> {certificateMissing, passwordRequired, invalidCertificateType, certificateTooLarge,
         certificateUploadFailed}
   \<and> fst (uploadImage ''u2''
      (Some \<lparr>fieldname = ''image'', filename = ''c.gif'', mimetype = ''image/gif'',
             file = \<lparr>delivered = [7, 7, 7], ending = Failed, readableLength = 0\<rparr>\<rparr>)
      [(''x'', [])])
     = fst (uploadImage ''u1''
      (Some \<lparr>fieldname = ''image'', filename = ''a.png'', mimetype = ''image/png'',
             file = \<lparr>delivered = [1], ending = Failed, readableLength = 0\<rparr>\<rparr>) [])
   \<and> fst (uploadCertificate 65536 True ''u2'' 5
      [File \<lparr>fieldname = ''certificate'', filename = ''b.pfx'', mimetype = ''y'',
             file = \<lparr>delivered = [9, 9], ending = Ended, readableLength = 2\<rparr>\<rparr>]
      [(''x'', [])])
     = fst (uploadCertificate 65536 True ''u1'' 0
      [File \<lparr>fieldname = ''certificate'', filename = ''a.txt'', mimetype = ''x'',
             file = \<lparr>delivered = [1], ending = Ended, readableLength = 1\<rparr>\<rparr>,
       Field ''password'' ''secret''] [])"
proof -
  let ?A = "\<lparr>fieldname = ''image'', filename = ''a.png'', mimetype = ''image/png'',
             file = \<lparr>delivered = [1], ending = Failed, readableLength = 0\<rparr>\<rparr>"
  let ?A' = "\<lparr>fieldname = ''image'', filename = ''b.png'', mimetype = ''image/png'',
             file = \<lparr>delivered = [2, 3], ending = Failed, readableLength = 1\<rparr>\<rparr>"
  let ?G = "\<lparr>fieldname = ''image'', filename = ''c.gif'', mimetype = ''image/gif'',
             file = \<lparr>delivered = [7, 7, 7], ending = Failed, readableLength = 0\<rparr>\<rparr>"
  let ?F = "\<lparr>fieldname = ''certificate'', filename = ''a.txt'', mimetype = ''x'',
             file = \<lparr>delivered = [1], ending = Ended, readableLength = 1\<rparr>\<rparr>"
  let ?F' = "\<lparr>fieldname = ''certificate'', filename = ''a.txt'', mimetype = ''y'',
             file = \<lparr>delivered = [9, 9], ending = Ended, readableLength = 1\<rparr>\<rparr>"
  let ?H = "\<lparr>fieldname = ''certificate'', filename = ''b.pfx'', mimetype = ''y'',
             file = \<lparr>delivered = [9, 9], ending = Ended, readableLength = 2\<rparr>\<rparr>"
  let ?P = "[File ?F, Field ''password'' ''secret'']"
  let ?P' = "[Field ''password'' ''other'', File ?F']"
  let ?Q = "[File ?H]"
  let ?E = "''Erro interno do servidor''"
  note t = error_replies_independent [where a = ?A and a' = ?A' and uuid = "''u1''"
      and uuid' = "''u2''" and d = "[]" and d' = "[(''x'', [])]"
      and bufferSize = 65536 and bufferSize' = 65536
      and disconnects = False and disconnects' = False
      and parts = ?P and parts' = ?P' and cf = ?F and cf' = ?F'
      and password = "''secret''" and password' = "''other''"
      and now = 0 and now' = 5 and c = "[]" and c' = "[(''x'', [])]"
      and data = "Some ?A" and r = invalidCertificateType]
  note s = error_replies_independent [where uuid = "''u1''"
      and uuid' = "''u2''" and d = "[]" and d' = "[(''x'', [])]"
      and bufferSize = 65536 and bufferSize' = 65536
      and disconnects = True and disconnects' = True
      and parts = ?P and parts' = ?Q
      and now = 0 and now' = 5 and c = "[]" and c' = "[(''x'', [])]"
      and data = "Some ?A" and data' = "Some ?G" and k = 500 and k' = 500 and e = ?E]
  note t1 = t [THEN conjunct1]
    and t2 = t [THEN conjunct2, THEN conjunct1]
    and t3 = s [THEN conjunct2, THEN conjunct2, THEN conjunct1]
    and t4 = t [THEN conjunct2, THEN conjunct2, THEN conjunct2, THEN conjunct1]
    and t5 = t [THEN conjunct2, THEN conjunct2, THEN conjunct2, THEN conjunct2, THEN conjunct1]
    and t6 = s [THEN conjunct2, THEN conjunct2, THEN conjunct2, THEN conjunct2, THEN conjunct2,
      THEN conjunct1]
    and t7 = s [THEN conjunct2, THEN conjunct2, THEN conjunct2, THEN conjunct2, THEN conjunct2,
      THEN conjunct2]
  have m: "mimetype ?A' = mimetype ?A" and en: "ending (file ?A') = ending (file ?A)"
    by simp_all
  have ua: "fst (uploadImage ''u1'' (Some ?A) []) = uploadFailed"
    unfolding uploadImage_reply by (simp add: allowedTypes_def)
  have ea: "fst (fst (uploadImage ''u1'' (Some ?A) [])) \<noteq> 200"
    unfolding ua by (simp add: uploadFailed_def)
  have ka: "fst (uploadImage ''u1'' (Some ?A) [])
      = (500, ErrorResponse ?E ''Ocorreu um erro ao processar o upload da imagem'')"
    unfolding ua by (simp add: uploadFailed_def)
  have kg: "fst (uploadImage ''u2'' (Some ?G) [(''x'', [])])
      = (500, ErrorResponse ?E ''Ocorreu um erro ao processar o upload da imagem'')"
    unfolding uploadImage_reply by (simp add: allowedTypes_def uploadFailed_def)
  have c1: "collectParts 65536 False ?P (None, []) = Finished (Some ?F, ''secret'')"
    and c2: "collectParts 65536 False ?P' (None, []) = Finished (Some ?F', ''other'')"
    by simp_all
  have pw: "(''secret'' = []) = (''other'' = [])" by simp
  have fn: "filename ?F' = filename ?F"
    and rl: "readableLength (file ?F') = readableLength (file ?F)"
    and ef: "ending (file ?F') = ending (file ?F)" by simp_all
  have x: "toLowerCase (extname ''a.txt'') = ''.txt''"
    by (simp add: extname_def lastComponent_def toLowerCase_def lowerChar_def)
  have uc: "fst (uploadCertificate 65536 False ''u1'' 0 ?P []) = Some invalidCertificateType"
    unfolding uploadCertificate_reply [OF c1] by (simp add: x certificateExtensions_def)
  have ec: "fst invalidCertificateType \<noteq> 200" by (simp add: invalidCertificateType_def)
  have kc: "fst (uploadCertificate 65536 True ''u1'' 0 ?P [])
      = Some (500, ErrorResponse ?E ''Ocorreu um erro ao processar o upload do certificado'')"
    unfolding uploadCertificate_unfinished(2) [OF collectParts_disconnects]
    by (simp add: certificateUploadFailed_def)
  have kq: "fst (uploadCertificate 65536 True ''u2'' 5 ?Q [(''x'', [])])
      = Some (500, ErrorResponse ?E ''Ocorreu um erro ao processar o upload do certificado'')"
    unfolding uploadCertificate_unfinished(2) [OF collectParts_disconnects]
    by (simp add: certificateUploadFailed_def)
  note r1 = t1 [rule_format, OF m en ea]
    and r2 = t2 [rule_format, OF c1 c2 pw fn rl ef uc ec]
    and r4 = t4 [rule_format, OF ea]
    and r5 = t5 [rule_format, OF uc ec]
    and r6 = t6 [rule_format, OF ka kg]
    and r7 = t7 [rule_format, OF kc kq]
  from ua r1 uc r2 t3 r4 r5 r6 r7 show ?thesis by (intro conjI)
qed

section \<open>Sizes of stored artifacts\<close>

lemma ext_png: "extname ''photo.png'' = ''.png''"
  by (simp add: extname_def lastComponent_def)

lemma ext_exe: "extname ''shell.exe'' = ''.exe''" "toLowerCase ''.exe'' = ''.exe''"
  by (simp_all add: extname_def lastComponent_def toLowerCase_def lowerChar_def)

text \<open>
  C2, as amended. Every ingest that succeeds, image or certificate, stored an
  artifact whose content is what the stream delivered and whose reported size is
  the number of those bytes; no declared size is consulted. With the stream the
  multipart plugin hands over under its \<open>fileSize\<close> limit that size is at most
  5,242,880, whichever way the plugin cuts; it may be 0.
\<close>

theorem successful_ingest_size:
  "(uploadImage uuid (Some a) d = ((200, Uploaded r), d') \<longrightarrow>
      up_size r = length (delivered (file a))
    \<and> map_of d' (up_filename r) = Some (delivered (file a))
    \<and> statSize d' (up_filename r) = Some (up_size r))
   \<and> (uploadImage uuid (Some (a\<lparr>file := limited b sent buffered\<rparr>)) d
        = ((200, Uploaded r), d') \<longrightarrow>
      up_size r \<le> 5242880)
   \<and> (uploadCertificate bufferSize disconnects uuid now parts c
        = (Some (200, CertificateUploaded s), c') \<longrightarrow>
      (\<exists>cf password.
          collectParts bufferSize disconnects parts (None, []) = Finished (Some cf, password)
        \<and> cu_size s = length (delivered (file cf))
        \<and> map_of c' (cu_filename s) = Some (delivered (file cf))
        \<and> statSize c' (cu_filename s) = Some (cu_size s)))
   \<and> (collectParts bufferSize disconnects parts (None, []) = Finished (Some cf, password) \<longrightarrow>
      file cf = limited b sent buffered \<longrightarrow>
      uploadCertificate bufferSize disconnects uuid now parts c
        = (Some (200, CertificateUploaded s), c') \<longrightarrow>
      cu_size s \<le> 5242880)"
proof -
  have i: "up_size r = length (delivered (file x))
    \<and> map_of d' (up_filename r) = Some (delivered (file x))
    \<and> statSize d' (up_filename r) = Some (up_size r)"
    if "uploadImage uuid (Some x) d = ((200, Uploaded r), d')" for x
  proof -
    from uploadImage_stored [OF that] have "up_size r = length (delivered (file x))"
      and "d' = writeFile d (up_filename r) (delivered (file x))" by auto
    then show ?thesis by (simp add: map_of_writeFile statSize_writeFile)
  qed
  have j: "\<exists>cf password.
          collectParts bufferSize disconnects parts (None, []) = Finished (Some cf, password)
        \<and> cu_size s = length (delivered (file cf))
        \<and> map_of c' (cu_filename s) = Some (delivered (file cf))
        \<and> statSize c' (cu_filename s) = Some (cu_size s)"
    if "uploadCertificate bufferSize disconnects uuid now parts c
        = (Some (200, CertificateUploaded s), c')"
  proof -
    from uploadCertificate_stored [OF that] obtain cf password where
      "collectParts bufferSize disconnects parts (None, []) = Finished (Some cf, password)"
      "cu_size s = length (delivered (file cf))"
      "c' = writeFile c (cu_filename s) (delivered (file cf))" by blast
    then show ?thesis by (auto simp: map_of_writeFile statSize_writeFile)
  qed
  have il: "up_size r \<le> 5242880"
    if "uploadImage uuid (Some (a\<lparr>file := limited b sent buffered\<rparr>)) d
        = ((200, Uploaded r), d')"
    using i [OF that] by (simp add: limited_def fileSize_def)
  have jl: "cu_size s \<le> 5242880"
    if c: "collectParts bufferSize disconnects parts (None, []) = Finished (Some cf, password)"
      and f: "file cf = limited b sent buffered"
      and u: "uploadCertificate bufferSize disconnects uuid now parts c
        = (Some (200, CertificateUploaded s), c')"
    using j [OF u] c f by (auto simp: limited_def fileSize_def)
  from i [of a] il j jl show ?thesis by blast
qed

text \<open>The hypotheses hold for a three-byte image and a three-byte certificate.\<close>

theorem successful_ingest_size_witness:
  "(\<exists>r d'. uploadImage ''u''
        (Some \<lparr>fieldname = ''image'', filename = ''a.png'', mimetype = ''image/png'',
               file = limited False [1, 2, 3] 0\<rparr>) [] = ((200, Uploaded r), d')
      \<and> up_size r = 3 \<and> up_size r \<le> 5242880
      \<and> map_of d' (up_filename r) = Some [1, 2, 3]
      \<and> statSize d' (up_filename r) = Some 3)
   \<and> (\<exists>s c'. uploadCertificate 65536 False ''u'' 0
        [File \<lparr>fieldname = ''certificate'', filename = ''a.pfx'', mimetype = ''x'',
               file = limited False [1, 2, 3] 3\<rparr>,
         Field ''password'' ''pw''] [] = (Some (200, CertificateUploaded s), c')
      \<and> cu_size s = 3 \<and> cu_size s \<le> 5242880
      \<and> map_of c' (cu_filename s) = Some [1, 2, 3]
      \<and> statSize c' (cu_filename s) = Some 3)"
proof -
  let ?A = "\<lparr>fieldname = ''image'', filename = ''a.png'', mimetype = ''image/png'',
               file = limited False [1, 2, 3] 0\<rparr>"
  let ?F = "\<lparr>fieldname = ''certificate'', filename = ''a.pfx'', mimetype = ''x'',
               file = limited False [1, 2, 3] 3\<rparr>"
  let ?P = "[File ?F, Field ''password'' ''pw'']"
  have l: "limited False [1, 2, 3] k
      = \<lparr>delivered = [1, 2, 3], ending = Ended, readableLength = min k 3\<rparr>" for k
    by (simp add: limited_def fileSize_def)
  have m: "mimetype ?A \<in> set allowedTypes" by (simp add: allowedTypes_def)
  obtain r d' where a: "uploadImage ''u'' (Some ?A) [] = ((200, Uploaded r), d')"
    unfolding uploadImage_accepted [OF m] by (simp add: l)
  then have a': "uploadImage ''u'' (Some (?A\<lparr>file := limited False [1, 2, 3] 0\<rparr>)) []
      = ((200, Uploaded r), d')" by simp
  have c: "collectParts 65536 False ?P (None, []) = Finished (Some ?F, ''pw'')"
    by (simp add: l)
  have p: "''pw'' \<noteq> []" by simp
  have e: "toLowerCase (extname (filename ?F)) \<in> set certificateExtensions"
    by (simp add: extname_def lastComponent_def toLowerCase_def lowerChar_def
        certificateExtensions_def)
  have f: "file ?F = limited False [1, 2, 3] 3" by simp
  have rl: "readableLength (file ?F) \<le> maxSize" by (simp add: l maxSize_def)
  obtain s c' where u: "uploadCertificate 65536 False ''u'' 0 ?P []
      = (Some (200, CertificateUploaded s), c')"
    unfolding uploadCertificate_accepted [OF c p e rl] by (simp add: l)
  note t = successful_ingest_size [where uuid = "''u''" and a = ?A and d = "[]" and r = r
      and d' = d' and b = False and sent = "[1, 2, 3]" and now = 0
      and bufferSize = 65536 and disconnects = False
      and parts = ?P and c = "[]" and s = s and c' = c' and cf = ?F and password = "''pw''"]
  note t1 = t [where buffered = 0, THEN conjunct1, rule_format, OF a]
    and t2 = t [where buffered = 0, THEN conjunct2, THEN conjunct1, rule_format, OF a']
    and t3 = t [where buffered = 3, THEN conjunct2, THEN conjunct2, THEN conjunct1,
      rule_format, OF u]
    and t4 = t [where buffered = 3, THEN conjunct2, THEN conjunct2, THEN conjunct2,
      rule_format, OF c f u]
  from t1 t2 have "up_size r = 3 \<and> up_size r \<le> 5242880
      \<and> map_of d' (up_filename r) = Some [1, 2, 3]
      \<and> statSize d' (up_filename r) = Some 3" by (simp add: l)
  with a have x: "\<exists>r d'. uploadImage ''u'' (Some ?A) [] = ((200, Uploaded r), d')
      \<and> up_size r = 3 \<and> up_size r \<le> 5242880 \<and> map_of d' (up_filename r) = Some [1, 2, 3]
      \<and> statSize d' (up_filename r) = Some 3"
    by blast
  from t3 c t4 have "cu_size s = 3 \<and> cu_size s \<le> 5242880
      \<and> map_of c' (cu_filename s) = Some [1, 2, 3]
      \<and> statSize c' (cu_filename s) = Some 3" by (auto simp: l)
  with u have y: "\<exists>s c'. uploadCertificate 65536 False ''u'' 0 ?P []
        = (Some (200, CertificateUploaded s), c')
      \<and> cu_size s = 3 \<and> cu_size s \<le> 5242880 \<and> map_of c' (cu_filename s) = Some [1, 2, 3]
      \<and> statSize c' (cu_filename s) = Some 3"
    by blast
  from x y show ?thesis by (rule conjI)
qed

text \<open>
  C2 as stated fails: no handler refuses an empty file. An image upload of no bytes
  is answered with 200 and stored with size 0.
\<close>

theorem empty_upload_counterexample:
  "uploadImage ''1b4e28ba-2fa1-41d2-883f-0016d3cca427''
     (Some \<lparr>fieldname = ''image'', filename = ''photo.png'', mimetype = ''image/png'',
            file = \<lparr>delivered = [], ending = Ended, readableLength = 0\<rparr>\<rparr>) []
     = ((200, Uploaded
          \<lparr>up_message = ''Imagem enviada com sucesso'',
           up_filename = ''1b4e28ba-2fa1-41d2-883f-0016d3cca427.png'',
           up_originalName = ''photo.png'',
           up_size = 0,
           up_mimetype = ''image/png'',
           up_url = ''http://localhost:3000/uploads/1b4e28ba-2fa1-41d2-883f-0016d3cca427.png''\<rparr>),
        [(''1b4e28ba-2fa1-41d2-883f-0016d3cca427.png'', [])])"
proof -
  have m: "''image/png'' \<in> set allowedTypes" by (simp add: allowedTypes_def)
  show ?thesis
    by (simp add: uploadImage_accepted m ext_png imageFilename_def writeFile_def)
qed

section \<open>Streams that fail\<close>

lemma listed_after_write:
  "(name \<in> set (imageFiles (writeFile d name bytes))) =
     (toLowerCase (extname name) \<in> set imageExtensions)"
  using readdir_writeFile [of name d bytes]
  by (simp add: imageFiles_def)

text \<open>
  C3, as amended. When the stream of an accepted image upload fails, the handler
  answers with the internal error and removes nothing: the bytes written before the
  failure stay on storage under the generated name, and the image listing reports
  that name exactly when its lower-cased extension is in the whitelist. When the
  client of a certificate upload disconnects, the handler answers with the internal
  error and the storage is as it was.
\<close>

theorem failed_stream_outcome:
  "(mimetype a \<in> set allowedTypes \<longrightarrow> ending (file a) = Failed \<longrightarrow>
      uploadImage uuid (Some a) d =
        (uploadFailed,
         writeFile d (imageFilename uuid (extname (filename a))) (delivered (file a)))
    \<and> map_of (snd (uploadImage uuid (Some a) d)) (imageFilename uuid (extname (filename a)))
        = Some (delivered (file a))
    \<and> (imageFilename uuid (extname (filename a))
          \<in> set (imageFiles (snd (uploadImage uuid (Some a) d))))
        = (toLowerCase (extname (imageFilename uuid (extname (filename a))))
            \<in> set imageExtensions))
   \<and> uploadCertificate bufferSize True uuid now parts c = (Some certificateUploadFailed, c)"
proof (intro conjI impI)
  assume m: "mimetype a \<in> set allowedTypes" and f: "ending (file a) = Failed"
  show u: "uploadImage uuid (Some a) d =
        (uploadFailed,
         writeFile d (imageFilename uuid (extname (filename a))) (delivered (file a)))"
    by (simp add: uploadImage_accepted [OF m] f)
  show "map_of (snd (uploadImage uuid (Some a) d)) (imageFilename uuid (extname (filename a)))
        = Some (delivered (file a))"
    unfolding u by (simp add: map_of_writeFile)
  show "(imageFilename uuid (extname (filename a))
          \<in> set (imageFiles (snd (uploadImage uuid (Some a) d))))
        = (toLowerCase (extname (imageFilename uuid (extname (filename a))))
            \<in> set imageExtensions)"
    unfolding u by (simp only: snd_conv listed_after_write)
next
  show "uploadCertificate bufferSize True uuid now parts c = (Some certificateUploadFailed, c)"
    by (rule uploadCertificate_unfinished(2) [OF collectParts_disconnects])
qed

text \<open>
  The hypotheses hold for an image whose stream fails after three bytes; the
  certificate upload is one whose client disconnects after two bytes of the file.
\<close>

theorem failed_stream_outcome_witness:
  "mimetype \<lparr>fieldname = ''image'', filename = ''photo.png'', mimetype = ''image/png'',
       file = \<lparr>delivered = [137, 80, 78], ending = Failed, readableLength = 0\<rparr>\<rparr>
     \<in> set allowedTypes
   \<and> map_of (snd (uploadImage ''u''
        (Some \<lparr>fieldname = ''image'', filename = ''photo.png'', mimetype = ''image/png'',
               file = \<lparr>delivered = [137, 80, 78], ending = Failed, readableLength = 0\<rparr>\<rparr>) []))
        (imageFilename ''u'' ''.png'') = Some [137, 80, 78]
   \<and> uploadCertificate 65536 True ''u'' 0
        [File \<lparr>fieldname = ''certificate'', filename = ''id.pfx'', mimetype = ''x'',
               file = \<lparr>delivered = [48, 130], ending = Failed, readableLength = 2\<rparr>\<rparr>]
        [(''cert_old.pfx'', [1])]
     = (Some certificateUploadFailed, [(''cert_old.pfx'', [1])])"
proof -
  let ?A = "\<lparr>fieldname = ''image'', filename = ''photo.png'', mimetype = ''image/png'',
       file = \<lparr>delivered = [137, 80, 78], ending = Failed, readableLength = 0\<rparr>\<rparr>"
  let ?F = "\<lparr>fieldname = ''certificate'', filename = ''id.pfx'', mimetype = ''x'',
               file = \<lparr>delivered = [48, 130], ending = Failed, readableLength = 2\<rparr>\<rparr>"
  note t = failed_stream_outcome [where a = ?A and uuid = "''u''" and d = "[]"
      and bufferSize = 65536 and parts = "[File ?F]" and now = 0
      and c = "[(''cert_old.pfx'', [1])]"]
  have m: "mimetype ?A \<in> set allowedTypes" by (simp add: allowedTypes_def)
  have f: "ending (file ?A) = Failed" by simp
  from t [THEN conjunct1, rule_format, OF m f, THEN conjunct2, THEN conjunct1]
  have i: "map_of (snd (uploadImage ''u'' (Some ?A) [])) (imageFilename ''u'' ''.png'')
      = Some [137, 80, 78]"
    by (simp add: ext_png)
  note j = t [THEN conjunct2]
  from m i j show ?thesis by (intro conjI)
qed

text \<open>
  C3 as stated fails: after an aborted image stream three bytes are on storage and
  the image listing has one entry for them.
\<close>

theorem aborted_image_stream_counterexample:
  "uploadImage ''1b4e28ba-2fa1-41d2-883f-0016d3cca427''
     (Some \<lparr>fieldname = ''image'', filename = ''photo.png'', mimetype = ''image/png'',
            file = \<lparr>delivered = [137, 80, 78], ending = Failed, readableLength = 0\<rparr>\<rparr>) []
     = (uploadFailed, [(''1b4e28ba-2fa1-41d2-883f-0016d3cca427.png'', [137, 80, 78])])
   \<and> listImages [(''1b4e28ba-2fa1-41d2-883f-0016d3cca427.png'', [137, 80, 78])]
     = (200, ImageList
          [\<lparr>img_filename = ''1b4e28ba-2fa1-41d2-883f-0016d3cca427.png'',
            img_url = ''http://localhost:3000/uploads/1b4e28ba-2fa1-41d2-883f-0016d3cca427.png'',
            img_size = 3\<rparr>] 1)"
proof -
  let ?U = "''1b4e28ba-2fa1-41d2-883f-0016d3cca427''"
  have m: "''image/png'' \<in> set allowedTypes" by (simp add: allowedTypes_def)
  have a: "uploadImage ?U
     (Some \<lparr>fieldname = ''image'', filename = ''photo.png'', mimetype = ''image/png'',
            file = \<lparr>delivered = [137, 80, 78], ending = Failed, readableLength = 0\<rparr>\<rparr>) []
     = (uploadFailed, [(''1b4e28ba-2fa1-41d2-883f-0016d3cca427.png'', [137, 80, 78])])"
    by (simp add: uploadImage_accepted m ext_png imageFilename_def writeFile_def)
  have x: "toLowerCase (extname ''1b4e28ba-2fa1-41d2-883f-0016d3cca427.png'') = ''.png''"
    by (simp add: extname_def lastComponent_def toLowerCase_def lowerChar_def)
  have b: "listImages [(''1b4e28ba-2fa1-41d2-883f-0016d3cca427.png'', [137, 80, 78])]
     = (200, ImageList
          [\<lparr>img_filename = ''1b4e28ba-2fa1-41d2-883f-0016d3cca427.png'',
            img_url = ''http://localhost:3000/uploads/1b4e28ba-2fa1-41d2-883f-0016d3cca427.png'',
            img_size = 3\<rparr>] 1)"
    by (simp add: listImages_def imageFiles_def readdirSync_def x imageExtensions_def
        imageEntryOf_def statSize_def)
  from a b show ?thesis by (rule conjI)
qed

section \<open>Checks the image routes do not make\<close>

text \<open>
  C4. The image upload checks the MIME type only: an upload named \<open>shell.exe\<close>
  with the MIME type \<open>image/png\<close> is stored under an \<open>.exe\<close> name, which the
  image listing then leaves out. The certificate upload rejects the same file name
  with the type error.
\<close>

theorem image_upload_extension_unchecked:
  "uploadImage ''1b4e28ba-2fa1-41d2-883f-0016d3cca427''
     (Some \<lparr>fieldname = ''image'', filename = ''shell.exe'', mimetype = ''image/png'',
            file = \<lparr>delivered = [77, 90], ending = Ended, readableLength = 0\<rparr>\<rparr>) []
     = ((200, Uploaded
          \<lparr>up_message = ''Imagem enviada com sucesso'',
           up_filename = ''1b4e28ba-2fa1-41d2-883f-0016d3cca427.exe'',
           up_originalName = ''shell.exe'',
           up_size = 2,
           up_mimetype = ''image/png'',
           up_url = ''http://localhost:3000/uploads/1b4e28ba-2fa1-41d2-883f-0016d3cca427.exe''\<rparr>),
        [(''1b4e28ba-2fa1-41d2-883f-0016d3cca427.exe'', [77, 90])])
   \<and> listImages [(''1b4e28ba-2fa1-41d2-883f-0016d3cca427.exe'', [77, 90])]
     = (200, ImageList [] 0)
   \<and> uploadCertificate 65536 False ''1b4e28ba-2fa1-41d2-883f-0016d3cca427'' 0
        [File \<lparr>fieldname = ''certificate'', filename = ''shell.exe'',
               mimetype = ''application/x-pkcs12'',
               file = \<lparr>delivered = [77, 90], ending = Ended, readableLength = 0\<rparr>\<rparr>,
         Field ''password'' ''pw''] []
     = (Some invalidCertificateType, [])"
proof -
  let ?U = "''1b4e28ba-2fa1-41d2-883f-0016d3cca427''"
  have m: "''image/png'' \<in> set allowedTypes" by (simp add: allowedTypes_def)
  have a: "uploadImage ?U
     (Some \<lparr>fieldname = ''image'', filename = ''shell.exe'', mimetype = ''image/png'',
            file = \<lparr>delivered = [77, 90], ending = Ended, readableLength = 0\<rparr>\<rparr>) []
     = ((200, Uploaded
          \<lparr>up_message = ''Imagem enviada com sucesso'',
           up_filename = ''1b4e28ba-2fa1-41d2-883f-0016d3cca427.exe'',
           up_originalName = ''shell.exe'',
           up_size = 2,
           up_mimetype = ''image/png'',
           up_url = ''http://localhost:3000/uploads/1b4e28ba-2fa1-41d2-883f-0016d3cca427.exe''\<rparr>),
        [(''1b4e28ba-2fa1-41d2-883f-0016d3cca427.exe'', [77, 90])])"
    by (simp add: uploadImage_accepted m ext_exe imageFilename_def writeFile_def)
  have x: "toLowerCase (extname ''1b4e28ba-2fa1-41d2-883f-0016d3cca427.exe'') = ''.exe''"
    by (simp add: extname_def lastComponent_def toLowerCase_def lowerChar_def)
  have b: "listImages [(''1b4e28ba-2fa1-41d2-883f-0016d3cca427.exe'', [77, 90])]
     = (200, ImageList [] 0)"
    by (simp add: listImages_def imageFiles_def readdirSync_def x imageExtensions_def)
  let ?F = "\<lparr>fieldname = ''certificate'', filename = ''shell.exe'',
               mimetype = ''application/x-pkcs12'',
               file = \<lparr>delivered = [77, 90], ending = Ended, readableLength = 0\<rparr>\<rparr>"
  have c: "collectParts 65536 False [File ?F, Field ''password'' ''pw''] (None, [])
      = Finished (Some ?F, ''pw'')"
    by simp
  have e: "toLowerCase (extname (filename ?F)) \<notin> set certificateExtensions"
    by (simp add: ext_exe certificateExtensions_def)
  have u: "uploadCertificate 65536 False ?U 0 [File ?F, Field ''password'' ''pw''] []
     = (Some invalidCertificateType, [])"
    by (rule uploadCertificate_refused(3) [OF c refl _ e]) simp
  from a b u show ?thesis by (intro conjI)
qed

text \<open>
  C5. The image deletion checks the existence of the name only: it removes a
  \<open>.pfx\<close> and a \<open>.txt\<close> entry of the uploads directory. The certificate
  deletion rejects a \<open>.txt\<close> entry with the invalid-file error.
\<close>

theorem image_delete_category_unchecked:
  "deleteImage ''1b4e28ba-2fa1-41d2-883f-0016d3cca427.pfx''
     [(''1b4e28ba-2fa1-41d2-883f-0016d3cca427.pfx'', [48, 130])]
     = ((200, Deleted ''Imagem deletada com sucesso''), [])
   \<and> deleteImage ''notes.txt'' [(''notes.txt'', [104, 105])]
     = ((200, Deleted ''Imagem deletada com sucesso''), [])
   \<and> deleteCertificate ''notes.txt'' [(''notes.txt'', [104, 105])]
     = (invalidCertificateFile, [(''notes.txt'', [104, 105])])"
proof -
  have x: "toLowerCase (extname ''notes.txt'') = ''.txt''"
    by (simp add: extname_def lastComponent_def toLowerCase_def lowerChar_def)
  have a: "deleteImage ''1b4e28ba-2fa1-41d2-883f-0016d3cca427.pfx''
     [(''1b4e28ba-2fa1-41d2-883f-0016d3cca427.pfx'', [48, 130])]
     = ((200, Deleted ''Imagem deletada com sucesso''), [])"
    by (simp add: deleteImage_def existsSync_def unlinkSync_def)
  have b: "deleteImage ''notes.txt'' [(''notes.txt'', [104, 105])]
     = ((200, Deleted ''Imagem deletada com sucesso''), [])"
    by (simp add: deleteImage_def existsSync_def unlinkSync_def)
  have c: "deleteCertificate ''notes.txt'' [(''notes.txt'', [104, 105])]
     = (invalidCertificateFile, [(''notes.txt'', [104, 105])])"
    by (simp add: deleteCertificate_def existsSync_def x certificateExtensions_def)
  from a b c show ?thesis by (intro conjI)
qed

end
